theory Spec2Isabelle
  imports Complex_Main
begin

section \<open>Data model\<close>

text \<open>
  The game is written in TypeScript on top of two libraries: three.js (scene graph,
  vectors) and cannon-es (rigid bodies). JavaScript numbers are modelled as \<open>real\<close>:
  the definitions of the first sections compute in exact arithmetic. The movement of the
  hole is modelled a second time with the rounding of IEEE doubles (section
  \<open>Double-precision arithmetic\<close>), and the claims about its velocity are stated there.
  \<open>NaN\<close> and the infinities are not modelled.

  \<open>THREE.Vector2\<close> and \<open>THREE.Vector3\<close> / \<open>CANNON.Vec3\<close> are records of coordinates.
\<close>

record Vector2 =
  v2x :: real
  v2y :: real

record Vector3 =
  v3x :: real
  v3y :: real
  v3z :: real

text \<open>
  The methods of \<open>THREE.Vector2\<close> that \<open>Hole.handleInput\<close> calls, as three.js
  defines them: \<open>normalize\<close> divides by \<open>length() || 1\<close>, \<open>divideScalar s\<close> multiplies
  by \<open>1 / s\<close>, \<open>setLength l\<close> is \<open>normalize().multiplyScalar(l)\<close>.
\<close>

definition Vector2_length :: "Vector2 \<Rightarrow> real" where
  "Vector2_length v = sqrt (v2x v * v2x v + v2y v * v2y v)"

definition Vector2_multiplyScalar :: "real \<Rightarrow> Vector2 \<Rightarrow> Vector2" where
  "Vector2_multiplyScalar s v = \<lparr>v2x = v2x v * s, v2y = v2y v * s\<rparr>"

definition Vector2_divideScalar :: "real \<Rightarrow> Vector2 \<Rightarrow> Vector2" where
  "Vector2_divideScalar s v = Vector2_multiplyScalar (1 / s) v"

definition Vector2_normalize :: "Vector2 \<Rightarrow> Vector2" where
  "Vector2_normalize v =
     Vector2_divideScalar (if Vector2_length v \<noteq> 0 then Vector2_length v else 1) v"

definition Vector2_negate :: "Vector2 \<Rightarrow> Vector2" where
  "Vector2_negate v = \<lparr>v2x = - v2x v, v2y = - v2y v\<rparr>"

definition Vector2_addScaledVector :: "Vector2 \<Rightarrow> real \<Rightarrow> Vector2 \<Rightarrow> Vector2" where
  "Vector2_addScaledVector d s v = \<lparr>v2x = v2x v + v2x d * s, v2y = v2y v + v2y d * s\<rparr>"

definition Vector2_setLength :: "real \<Rightarrow> Vector2 \<Rightarrow> Vector2" where
  "Vector2_setLength l v = Vector2_multiplyScalar l (Vector2_normalize v)"

text \<open>
  The nodes of the scene graph and the rigid bodies are named by their role. Object
  number \<open>i\<close> of \<open>World.objects\<close> owns the mesh \<open>ObjMesh i\<close> and the body \<open>ObjBody i\<close>;
  \<open>GroundBody i\<close> is the \<open>i\<close>-th kinematic box of the ring around the hole.
\<close>

datatype node = AmbientLight | DirLight | HoleGroup | Ground | HoleMask | HoleInterior
  | ObjMesh nat

datatype body = GroundBody nat | ObjBody nat

text \<open>
  The \<open>THREE.Scene\<close> and the \<open>CANNON.World\<close> are shared by \<open>World\<close> and \<open>Hole\<close>, which
  both keep a reference to them; they are the explicit store \<open>Env\<close>. \<open>scene\<close> is
  \<open>scene.children\<close>, \<open>physicsWorld\<close> is \<open>physicsWorld.bodies\<close>, and \<open>renderOrder\<close> is the
  \<open>renderOrder\<close> property of every \<open>Object3D\<close> (0 unless assigned). A mesh has a
  non-null \<open>parent\<close> exactly while it is a child of the scene.
\<close>

record Env =
  scene :: "node list"
  physicsWorld :: "body list"
  renderOrder :: "node \<Rightarrow> int"

text \<open>
  The two library calls of \<open>checkSwallow\<close>. \<open>Object3D.remove\<close> and \<open>World.removeBody\<close>
  both look the argument up with \<open>indexOf\<close> and splice it out when it is found, and do
  nothing to the list otherwise.
\<close>

definition Scene_add :: "node \<Rightarrow> Env \<Rightarrow> Env" where
  "Scene_add m env = env\<lparr>scene := scene env @ [m]\<rparr>"

definition Scene_remove :: "node \<Rightarrow> Env \<Rightarrow> Env" where
  "Scene_remove m env = env\<lparr>scene := remove1 m (scene env)\<rparr>"

definition CWorld_addBody :: "body \<Rightarrow> Env \<Rightarrow> Env" where
  "CWorld_addBody b env = env\<lparr>physicsWorld := physicsWorld env @ [b]\<rparr>"

definition CWorld_removeBody :: "body \<Rightarrow> Env \<Rightarrow> Env" where
  "CWorld_removeBody b env = env\<lparr>physicsWorld := remove1 b (physicsWorld env)\<rparr>"

text \<open>A kinematic ground box: its position and the half extents of its box shape.\<close>

record GroundBox =
  gb_position :: Vector3
  gb_halfExtents :: Vector3

text \<open>
  The fields of class \<open>Hole\<close>. \<open>mesh_position\<close> is \<open>this.mesh.position\<close>;
  \<open>holeMask_radius\<close> and \<open>holeInterior_radius\<close> are the radii the two geometries were
  built with (the meshes do not exist before \<open>setupVisuals\<close>; the fields read 0 until
  then); \<open>keys\<close> is the dictionary from key codes to booleans, where a missing key reads
  as \<open>undefined\<close>, which is falsy. The \<open>renderOrder\<close> of the two meshes lives in the
  store with that of every other node.
\<close>

record Hole =
  mesh_position :: Vector3
  holeMask_radius :: real
  holeInterior_radius :: real
  groundBodies :: "GroundBox list"
  radius :: real
  currentSpeed :: Vector2
  maxSpeed :: real
  acceleration :: real
  friction :: real
  keys :: "string \<Rightarrow> bool option"

text \<open>An entry of \<open>World.objects\<close>: a mesh and a body, with the position of each.\<close>

record Obj =
  obj_id :: nat
  obj_mesh_position :: Vector3
  obj_body_position :: Vector3

abbreviation obj_mesh :: "Obj \<Rightarrow> node" where
  "obj_mesh ob \<equiv> ObjMesh (obj_id ob)"

abbreviation obj_body :: "Obj \<Rightarrow> body" where
  "obj_body ob \<equiv> ObjBody (obj_id ob)"

record World =
  env :: Env
  hole :: Hole
  objects :: "Obj list"

record Game =
  lastTime :: real
  world :: World

text \<open>
  Reading \<open>groundBodies[i]\<close> past the end of the array yields \<open>undefined\<close>, and the
  property access on it throws a \<open>TypeError\<close>.
\<close>

datatype error = TypeError

section \<open>Class Hole\<close>

subsection \<open>Construction\<close>

text \<open>
  The field initialisers, then the three set-up methods in the order of the constructor.
  \<open>setupVisuals\<close> adds the ground plane to the scene, builds the mask disk and the
  interior cylinder with the current radius and assigns their render orders; the ground
  keeps the default render order. \<open>setupInput\<close> only registers the listeners, whose
  effect is \<open>Hole_onKey\<close> below.
\<close>

definition Hole_fields :: Hole where
  "Hole_fields =
     \<lparr>mesh_position = \<lparr>v3x = 0, v3y = 0, v3z = 0\<rparr>,
      holeMask_radius = 0,
      holeInterior_radius = 0,
      groundBodies = [],
      radius = 1.5,
      currentSpeed = \<lparr>v2x = 0, v2y = 0\<rparr>,
      maxSpeed = 8,
      acceleration = 40,
      friction = 20,
      keys = (\<lambda>k. None)\<rparr>"

definition Hole_setupVisuals :: "Hole \<times> Env \<Rightarrow> Hole \<times> Env" where
  "Hole_setupVisuals s =
     (case s of (h, e) \<Rightarrow>
        let e1 = Scene_add Ground e;
            h1 = h\<lparr>holeMask_radius := radius h\<rparr>;
            e2 = e1\<lparr>renderOrder := (renderOrder e1)(HoleMask := - 1)\<rparr>;
            h2 = h1\<lparr>holeInterior_radius := radius h1\<rparr>;
            e3 = e2\<lparr>renderOrder := (renderOrder e2)(HoleInterior := 1)\<rparr>
        in (h2, e3))"

definition Hole_updatePhysicsHolePos :: "Hole \<Rightarrow> error + Hole" where
  "Hole_updatePhysicsHolePos h =
     (let x = v3x (mesh_position h);
          z = v3z (mesh_position h);
          r = radius h;
          huge = 50;
          groundThickness = 1;
          yStrata = - groundThickness / 2;
          g = groundBodies h
      in if length g < 4 then Inl TypeError
         else Inr (h\<lparr>groundBodies :=
           g[0 := (g ! 0)\<lparr>gb_position := \<lparr>v3x = x + r + huge, v3y = yStrata, v3z = z\<rparr>\<rparr>,
             1 := (g ! 1)\<lparr>gb_position := \<lparr>v3x = x - r - huge, v3y = yStrata, v3z = z\<rparr>\<rparr>,
             2 := (g ! 2)\<lparr>gb_position := \<lparr>v3x = x, v3y = yStrata, v3z = z - r - huge\<rparr>\<rparr>,
             3 := (g ! 3)\<lparr>gb_position := \<lparr>v3x = x, v3y = yStrata, v3z = z + r + huge\<rparr>\<rparr>]\<rparr>))"

text \<open>
  The loop \<open>for (let i = 0; i < 4; i++)\<close> of \<open>setupPhysics\<close>, with the number of
  iterations left as the recursion argument.
\<close>

fun Hole_addGroundBodies :: "nat \<Rightarrow> nat \<Rightarrow> Hole \<times> Env \<Rightarrow> Hole \<times> Env" where
  "Hole_addGroundBodies i 0 s = s"
| "Hole_addGroundBodies i (Suc n) (h, e) =
     (let groundThickness = 1;
          groundSize = 100;
          b = \<lparr>gb_position = \<lparr>v3x = 0, v3y = 0, v3z = 0\<rparr>,
               gb_halfExtents =
                 \<lparr>v3x = groundSize / 2, v3y = groundThickness / 2, v3z = groundSize / 2\<rparr>\<rparr>
      in Hole_addGroundBodies (Suc i) n
           (h\<lparr>groundBodies := groundBodies h @ [b]\<rparr>, CWorld_addBody (GroundBody i) e))"

definition Hole_setupPhysics :: "Hole \<times> Env \<Rightarrow> error + Hole \<times> Env" where
  "Hole_setupPhysics s =
     (case Hole_addGroundBodies 0 4 s of (h, e) \<Rightarrow>
        (case Hole_updatePhysicsHolePos h of
           Inl err \<Rightarrow> Inl err
         | Inr h' \<Rightarrow> Inr (h', e)))"

definition Hole_new :: "Env \<Rightarrow> error + Hole \<times> Env" where
  "Hole_new e = Hole_setupPhysics (Hole_setupVisuals (Hole_fields, Scene_add HoleGroup e))"

subsection \<open>Input and movement\<close>

text \<open>
  \<open>handleInput\<close> in the order of the source: the input vector read from the keys and
  normalised when it is not zero (\<open>Hole_input\<close>), acceleration or friction
  (\<open>Hole_integrate\<close>), the cap on the speed (\<open>Hole_capSpeed\<close>), and the move of the mesh.
  \<open>update\<close> then repositions the ring.
\<close>

datatype key_event = KeyDown string | KeyUp string

fun Hole_onKey :: "key_event \<Rightarrow> Hole \<Rightarrow> Hole" where
  "Hole_onKey (KeyDown c) h = h\<lparr>keys := (keys h)(c := Some True)\<rparr>"
| "Hole_onKey (KeyUp c) h = h\<lparr>keys := (keys h)(c := Some False)\<rparr>"

definition pressed :: "Hole \<Rightarrow> string \<Rightarrow> bool" where
  "pressed h c = (keys h c = Some True)"

definition Hole_input :: "Hole \<Rightarrow> Vector2" where
  "Hole_input h =
     (let i0 = \<lparr>v2x = 0, v2y = 0\<rparr>;
          i1 = (if pressed h ''ArrowUp'' \<or> pressed h ''KeyW'' then i0\<lparr>v2y := v2y i0 - 1\<rparr> else i0);
          i2 = (if pressed h ''ArrowDown'' \<or> pressed h ''KeyS'' then i1\<lparr>v2y := v2y i1 + 1\<rparr> else i1);
          i3 = (if pressed h ''ArrowLeft'' \<or> pressed h ''KeyA'' then i2\<lparr>v2x := v2x i2 - 1\<rparr> else i2);
          i4 = (if pressed h ''ArrowRight'' \<or> pressed h ''KeyD'' then i3\<lparr>v2x := v2x i3 + 1\<rparr> else i3)
      in if Vector2_length i4 > 0 then Vector2_normalize i4 else i4)"

definition Hole_integrate :: "real \<Rightarrow> Hole \<Rightarrow> Vector2" where
  "Hole_integrate dt h =
     (let inp = Hole_input h;
          v = currentSpeed h
      in if Vector2_length inp > 0
         then \<lparr>v2x = v2x v + v2x inp * acceleration h * dt,
               v2y = v2y v + v2y inp * acceleration h * dt\<rparr>
         else
           (let frictionStep = friction h * dt
            in if Vector2_length v < frictionStep then \<lparr>v2x = 0, v2y = 0\<rparr>
               else Vector2_addScaledVector (Vector2_negate (Vector2_normalize v)) frictionStep v))"

definition Hole_capSpeed :: "Hole \<Rightarrow> Vector2 \<Rightarrow> Vector2" where
  "Hole_capSpeed h v =
     (if Vector2_length v > maxSpeed h then Vector2_setLength (maxSpeed h) v else v)"

definition Hole_handleInput :: "real \<Rightarrow> Hole \<Rightarrow> Hole" where
  "Hole_handleInput dt h =
     (let v = Hole_capSpeed h (Hole_integrate dt h);
          p = mesh_position h
      in h\<lparr>currentSpeed := v,
            mesh_position := p\<lparr>v3x := v3x p + v2x v * dt, v3z := v3z p + v2y v * dt\<rparr>\<rparr>)"

definition Hole_update :: "real \<Rightarrow> Hole \<Rightarrow> error + Hole" where
  "Hole_update dt h = Hole_updatePhysicsHolePos (Hole_handleInput dt h)"

subsection \<open>Swallowing\<close>

text \<open>
  \<open>checkSwallow\<close> reads the position of the mesh and of the hole and removes the body
  and the mesh when the object is inside the hole and deep enough.
\<close>

definition Hole_checkSwallow :: "Hole \<Rightarrow> Obj \<Rightarrow> Env \<Rightarrow> Env" where
  "Hole_checkSwallow h ob e =
     (let dx = v3x (obj_mesh_position ob) - v3x (mesh_position h);
          dz = v3z (obj_mesh_position ob) - v3z (mesh_position h);
          dist = sqrt (dx * dx + dz * dz);
          objRadius = 0.5
      in if dist + objRadius < radius h
         then (if v3y (obj_mesh_position ob) < - 5
               then Scene_remove (obj_mesh ob) (CWorld_removeBody (obj_body ob) e)
               else e)
         else e)"

section \<open>Class World\<close>

text \<open>
  The rigid-body solver is not part of the repository. It is a parameter: given the
  time step and the world as it stands at the moment \<open>physicsWorld.step\<close> is called, it
  returns the new position of the body of one object. The solver is handed the whole
  world, of which it reads the ground boxes and the objects, so that a statement about
  all solvers is a statement about the state in which the step runs. It moves no
  kinematic body (their velocity is never set) and it steps only bodies that are still
  in the physics world.
\<close>

type_synonym physics = "real \<Rightarrow> World \<Rightarrow> Obj \<Rightarrow> Vector3"

definition World_step :: "physics \<Rightarrow> real \<Rightarrow> World \<Rightarrow> World" where
  "World_step eng dt w =
     w\<lparr>objects :=
         map (\<lambda>ob. if obj_body ob \<in> set (physicsWorld (env w))
                    then ob\<lparr>obj_body_position := eng dt w ob\<rparr>
                    else ob)
             (objects w)\<rparr>"

text \<open>
  The loop over \<open>this.objects\<close>: copy the body's position into the mesh, then ask the
  hole whether the object is swallowed.
\<close>

fun World_sync :: "Hole \<Rightarrow> Obj list \<Rightarrow> Env \<Rightarrow> Obj list \<times> Env" where
  "World_sync h [] e = ([], e)"
| "World_sync h (ob # obs) e =
     (let ob' = ob\<lparr>obj_mesh_position := obj_body_position ob\<rparr>;
          e' = Hole_checkSwallow h ob' e
      in case World_sync h obs e' of (obs', e'') \<Rightarrow> (ob' # obs', e''))"

definition World_update :: "physics \<Rightarrow> real \<Rightarrow> World \<Rightarrow> error + World" where
  "World_update eng dt w =
     (let w1 = World_step eng dt w
      in case World_sync (hole w1) (objects w1) (env w1) of (obs, e) \<Rightarrow>
           (let obs' = filter (\<lambda>ob. obj_mesh ob \<in> set (scene e)) obs
            in case Hole_update dt (hole w1) of
                 Inl err \<Rightarrow> Inl err
               | Inr h' \<Rightarrow> Inr \<lparr>env = e, hole = h', objects = obs'\<rparr>))"

text \<open>
  \<open>addDecorations\<close> draws random positions and skips those too close to the origin;
  the positions it keeps are the list \<open>ps\<close> of \<open>(x, z)\<close> pairs. \<open>addPhysicsObject\<close> adds
  the mesh to the scene and a body at spawn height 5 to the physics world.
\<close>

definition World_addPhysicsObject :: "nat \<Rightarrow> real \<times> real \<Rightarrow> World \<Rightarrow> World" where
  "World_addPhysicsObject i p w =
     (let spawnY = 5;
          mp = \<lparr>v3x = fst p, v3y = 0, v3z = snd p\<rparr>;
          e1 = Scene_add (ObjMesh i) (env w);
          bp = \<lparr>v3x = v3x mp, v3y = spawnY, v3z = v3z mp\<rparr>;
          e2 = CWorld_addBody (ObjBody i) e1
      in w\<lparr>env := e2,
            objects := objects w @ [\<lparr>obj_id = i, obj_mesh_position = mp, obj_body_position = bp\<rparr>]\<rparr>)"

fun World_addDecorations :: "nat \<Rightarrow> (real \<times> real) list \<Rightarrow> World \<Rightarrow> World" where
  "World_addDecorations i [] w = w"
| "World_addDecorations i (p # ps) w =
     World_addDecorations (Suc i) ps (World_addPhysicsObject i p w)"

definition World_new :: "(real \<times> real) list \<Rightarrow> error + World" where
  "World_new ps =
     (let e0 = \<lparr>scene = [], physicsWorld = [], renderOrder = (\<lambda>n. 0)\<rparr>;
          e1 = Scene_add DirLight (Scene_add AmbientLight e0)
      in case Hole_new e1 of
           Inl err \<Rightarrow> Inl err
         | Inr (h, e2) \<Rightarrow> Inr (World_addDecorations 0 ps \<lparr>env = e2, hole = h, objects = []\<rparr>))"

text \<open>
  A frame of the session: the key events delivered since the last frame, then one call
  of \<open>World.update\<close> with the frame's time step. The solver keeps velocities and
  contacts of its own, which are not modelled; every frame therefore comes with its own
  solver function, so that a session ranges over every sequence of body positions.
\<close>

type_synonym frame = "key_event list \<times> real \<times> physics"

definition World_frame :: "frame \<Rightarrow> World \<Rightarrow> error + World" where
  "World_frame f w =
     (case f of (evs, dt, eng) \<Rightarrow>
        World_update eng dt (w\<lparr>hole := fold Hole_onKey evs (hole w)\<rparr>))"

fun World_run :: "frame list \<Rightarrow> World \<Rightarrow> error + World" where
  "World_run [] w = Inr w"
| "World_run (f # fs) w =
     (case World_frame f w of Inl err \<Rightarrow> Inl err | Inr w' \<Rightarrow> World_run fs w')"

definition session :: "(real \<times> real) list \<Rightarrow> frame list \<Rightarrow> error + World" where
  "session ps fs = (case World_new ps of Inl err \<Rightarrow> Inl err | Inr w \<Rightarrow> World_run fs w)"

text \<open>
  Placing the ring again from the position and the radius the hole has in a given
  world, with \<open>updatePhysicsHolePos\<close> itself.
\<close>

definition World_placeRing :: "World \<Rightarrow> World" where
  "World_placeRing w =
     (case Hole_updatePhysicsHolePos (hole w) of Inl err \<Rightarrow> w | Inr h \<Rightarrow> w\<lparr>hole := h\<rparr>)"

section \<open>Class Game\<close>

text \<open>
  One tick of \<open>animate\<close>: \<open>currentTime\<close> is the value of \<open>performance.now()\<close> in
  milliseconds. Rendering does not change the state and is left out.
\<close>

definition Game_deltaTime :: "real \<Rightarrow> real \<Rightarrow> real" where
  "Game_deltaTime currentTime lastT = min ((currentTime - lastT) / 1000) 0.1"

definition Game_animate :: "physics \<Rightarrow> real \<Rightarrow> Game \<Rightarrow> error + Game" where
  "Game_animate eng currentTime g =
     (let deltaTime = Game_deltaTime currentTime (lastTime g)
      in case World_update eng deltaTime (world g) of
           Inl err \<Rightarrow> Inl err
         | Inr w \<Rightarrow> Inr \<lparr>lastTime = currentTime, world = w\<rparr>)"

section \<open>Sequences of calls\<close>

text \<open>
  The public methods of \<open>Hole\<close> and the key listeners, called in any order, and a run
  of \<open>Hole.update\<close> alone. The first error ends a run, as the exception would.
\<close>

fun Hole_updates :: "real list \<Rightarrow> Hole \<Rightarrow> error + Hole" where
  "Hole_updates [] h = Inr h"
| "Hole_updates (dt # dts) h =
     (case Hole_update dt h of Inl err \<Rightarrow> Inl err | Inr h' \<Rightarrow> Hole_updates dts h')"

datatype call = Update real | CheckSwallow Obj | Key key_event

fun Hole_call :: "call \<Rightarrow> Hole \<times> Env \<Rightarrow> error + Hole \<times> Env" where
  "Hole_call (Update dt) (h, e) =
     (case Hole_update dt h of Inl err \<Rightarrow> Inl err | Inr h' \<Rightarrow> Inr (h', e))"
| "Hole_call (CheckSwallow ob) (h, e) = Inr (h, Hole_checkSwallow h ob e)"
| "Hole_call (Key ev) (h, e) = Inr (Hole_onKey ev h, e)"

fun Hole_calls :: "call list \<Rightarrow> Hole \<times> Env \<Rightarrow> error + Hole \<times> Env" where
  "Hole_calls [] s = Inr s"
| "Hole_calls (c # cs) s =
     (case Hole_call c s of Inl err \<Rightarrow> Inl err | Inr s' \<Rightarrow> Hole_calls cs s')"

section \<open>Invariants of a session\<close>

text \<open>
  Auxiliary definitions for the proofs: the ring as \<open>updatePhysicsHolePos\<close> leaves it,
  what holds of the hole, the store and the world at the end of every frame, and the
  concrete states the constructors produce.
\<close>

definition ring :: "Hole \<Rightarrow> GroundBox list" where
  "ring h =
     (let x = v3x (mesh_position h); z = v3z (mesh_position h); r = radius h; g = groundBodies h
      in [(g ! 0)\<lparr>gb_position := \<lparr>v3x = x + r + 50, v3y = - 1 / 2, v3z = z\<rparr>\<rparr>,
          (g ! 1)\<lparr>gb_position := \<lparr>v3x = x - r - 50, v3y = - 1 / 2, v3z = z\<rparr>\<rparr>,
          (g ! 2)\<lparr>gb_position := \<lparr>v3x = x, v3y = - 1 / 2, v3z = z - r - 50\<rparr>\<rparr>,
          (g ! 3)\<lparr>gb_position := \<lparr>v3x = x, v3y = - 1 / 2, v3z = z + r + 50\<rparr>\<rparr>])"

text \<open>
  The placement of the ring in the words of the specification: each box is centred at
  the hole's centre plus or minus \<open>radius + halfExtent\<close> along its own axis and at the
  centre along the other, where \<open>halfExtent\<close> is half the full extent 100 of a box, and
  the inner edge of each box is one radius away from the centre.
\<close>

definition spec_ring_placed :: "Hole \<Rightarrow> bool" where
  "spec_ring_placed h \<longleftrightarrow>
     length (groundBodies h) = 4 \<and>
     (let x = v3x (mesh_position h); z = v3z (mesh_position h); r = radius h;
          g = groundBodies h; halfExtent = 100 / 2
      in map gb_halfExtents g = replicate 4 \<lparr>v3x = halfExtent, v3y = 1 / 2, v3z = halfExtent\<rparr> \<and>
         v3x (gb_position (g ! 0)) = x + (r + halfExtent) \<and> v3z (gb_position (g ! 0)) = z \<and>
         v3x (gb_position (g ! 1)) = x - (r + halfExtent) \<and> v3z (gb_position (g ! 1)) = z \<and>
         v3z (gb_position (g ! 2)) = z - (r + halfExtent) \<and> v3x (gb_position (g ! 2)) = x \<and>
         v3z (gb_position (g ! 3)) = z + (r + halfExtent) \<and> v3x (gb_position (g ! 3)) = x \<and>
         v3x (gb_position (g ! 0)) - v3x (gb_halfExtents (g ! 0)) = x + r \<and>
         v3x (gb_position (g ! 1)) + v3x (gb_halfExtents (g ! 1)) = x - r \<and>
         v3z (gb_position (g ! 2)) + v3z (gb_halfExtents (g ! 2)) = z - r \<and>
         v3z (gb_position (g ! 3)) - v3z (gb_halfExtents (g ! 3)) = z + r)"

definition Hole_ok :: "Hole \<Rightarrow> bool" where
  "Hole_ok h \<longleftrightarrow>
     ring h = groundBodies h \<and>
     map gb_halfExtents (groundBodies h) = replicate 4 \<lparr>v3x = 50, v3y = 1 / 2, v3z = 50\<rparr> \<and>
     radius h = 1.5 \<and> holeMask_radius h = 1.5 \<and> holeInterior_radius h = 1.5 \<and>
     maxSpeed h = 8 \<and> acceleration h = 40 \<and> friction h = 20 \<and>
     Vector2_length (currentSpeed h) \<le> 8"

text \<open>
  In the store, the meshes and the bodies of the objects come and go together, and
  nothing occurs twice.
\<close>

definition Env_ok :: "Env \<Rightarrow> bool" where
  "Env_ok e \<longleftrightarrow>
     renderOrder e HoleMask = - 1 \<and> renderOrder e Ground = 0 \<and> renderOrder e HoleInterior = 1 \<and>
     distinct (scene e) \<and> distinct (physicsWorld e) \<and>
     ObjMesh -` set (scene e) = ObjBody -` set (physicsWorld e)"

definition World_ok :: "World \<Rightarrow> bool" where
  "World_ok w \<longleftrightarrow>
     Hole_ok (hole w) \<and> Env_ok (env w) \<and> distinct (map obj_id (objects w)) \<and>
     obj_id ` set (objects w) \<subseteq> ObjMesh -` set (scene (env w))"

text \<open>The world while \<open>addDecorations\<close> runs, with \<open>i\<close> objects spawned so far.\<close>

definition World_spawned :: "nat \<Rightarrow> World \<Rightarrow> bool" where
  "World_spawned i w \<longleftrightarrow>
     Hole_ok (hole w) \<and>
     renderOrder (env w) HoleMask = - 1 \<and> renderOrder (env w) Ground = 0 \<and>
     renderOrder (env w) HoleInterior = 1 \<and>
     distinct (scene (env w)) \<and> distinct (physicsWorld (env w)) \<and>
     ObjMesh -` set (scene (env w)) = {..<i} \<and>
     ObjBody -` set (physicsWorld (env w)) = {..<i} \<and>
     map obj_id (objects w) = [0..<i]"

text \<open>
  The hole and the store as the constructors leave them, before any object is spawned,
  and the concrete states used to evaluate the theorems: one object in the scene, the
  right arrow held, the hole coasting along \<open>x\<close> with no key held.
\<close>

definition Hole_start :: Hole where
  "Hole_start =
     \<lparr>mesh_position = \<lparr>v3x = 0, v3y = 0, v3z = 0\<rparr>,
      holeMask_radius = 1.5,
      holeInterior_radius = 1.5,
      groundBodies =
        [\<lparr>gb_position = \<lparr>v3x = 51.5, v3y = - 0.5, v3z = 0\<rparr>,
          gb_halfExtents = \<lparr>v3x = 50, v3y = 0.5, v3z = 50\<rparr>\<rparr>,
         \<lparr>gb_position = \<lparr>v3x = - 51.5, v3y = - 0.5, v3z = 0\<rparr>,
          gb_halfExtents = \<lparr>v3x = 50, v3y = 0.5, v3z = 50\<rparr>\<rparr>,
         \<lparr>gb_position = \<lparr>v3x = 0, v3y = - 0.5, v3z = - 51.5\<rparr>,
          gb_halfExtents = \<lparr>v3x = 50, v3y = 0.5, v3z = 50\<rparr>\<rparr>,
         \<lparr>gb_position = \<lparr>v3x = 0, v3y = - 0.5, v3z = 51.5\<rparr>,
          gb_halfExtents = \<lparr>v3x = 50, v3y = 0.5, v3z = 50\<rparr>\<rparr>],
      radius = 1.5,
      currentSpeed = \<lparr>v2x = 0, v2y = 0\<rparr>,
      maxSpeed = 8,
      acceleration = 40,
      friction = 20,
      keys = (\<lambda>k. None)\<rparr>"

definition Env_start :: Env where
  "Env_start =
     \<lparr>scene = [AmbientLight, DirLight, HoleGroup, Ground],
      physicsWorld = [GroundBody 0, GroundBody 1, GroundBody 2, GroundBody 3],
      renderOrder = (\<lambda>n. 0)(HoleMask := - 1, HoleInterior := 1)\<rparr>"

definition Obj_at :: "real \<Rightarrow> real \<Rightarrow> real \<Rightarrow> Obj" where
  "Obj_at px py pz =
     \<lparr>obj_id = 0, obj_mesh_position = \<lparr>v3x = px, v3y = py, v3z = pz\<rparr>,
      obj_body_position = \<lparr>v3x = px, v3y = py, v3z = pz\<rparr>\<rparr>"

definition Env_one :: Env where
  "Env_one = Env_start\<lparr>scene := scene Env_start @ [ObjMesh 0],
                       physicsWorld := physicsWorld Env_start @ [ObjBody 0]\<rparr>"

definition Hole_right :: Hole where
  "Hole_right = Hole_onKey (KeyDown ''ArrowRight'') Hole_start"

text \<open>The factor by which friction scales a velocity of length \<open>m\<close> in a step \<open>s\<close>.\<close>

definition decay :: "real \<Rightarrow> real \<Rightarrow> real" where
  "decay m s = (if m < s then 0 else if m = 0 then 1 else 1 - s / m)"


section \<open>Double-precision arithmetic\<close>

text \<open>
  A JavaScript number is an IEEE 754 binary64 value, and every arithmetic operation and
  \<open>Math.sqrt\<close> return the exact result rounded to the nearest such value, ties to the
  even significand. \<open>fl\<close> is that rounding on the reals: \<open>rne\<close> rounds a real to the nearest
  integer, ties to even, and \<open>fl y\<close> applies it to \<open>y\<close> scaled so that its leading bit has
  weight \<open>2^52\<close>, which leaves a significand of 53 bits. The exponent is not bounded, so
  overflow and subnormal numbers are not modelled: the speeds, time steps and positions
  of the game stay many orders of magnitude away from both. \<open>eps\<close> is the bound \<open>2^-53\<close>
  on the relative error of one rounding.
\<close>

definition rne :: "real \<Rightarrow> int" where
  "rne q =
     (let f = \<lfloor>q\<rfloor>; r = q - of_int f
      in if r < 1 / 2 then f else if 1 / 2 < r then f + 1 else if even f then f else f + 1)"

definition fl :: "real \<Rightarrow> real" where
  "fl y =
     (if y = 0 then 0
      else (let e = \<lfloor>log 2 \<bar>y\<bar>\<rfloor> - 52
            in of_int (rne (y / 2 powi e)) * 2 powi e))"

definition eps :: real where "eps = 1 / 2 ^ 53"

text \<open>
  The movement code of \<open>Hole\<close> once more, with a rounding \<open>rnd\<close> applied to the result of
  every arithmetic operation in the order in which the source and three.js evaluate
  them: \<open>length()\<close> is \<open>Math.sqrt(x * x + y * y)\<close>, \<open>addScaledVector(v, s)\<close> is
  \<open>x += v.x * s\<close>, the acceleration is \<open>x += input.x * acceleration * dt\<close>. Negation
  and comparison are exact. With the identity for \<open>rnd\<close> these are the definitions of
  section \<open>Class Hole\<close>; with \<open>fl\<close> they are the program as it runs.
\<close>

definition Vector2_length_r :: "(real \<Rightarrow> real) \<Rightarrow> Vector2 \<Rightarrow> real" where
  "Vector2_length_r rnd v = rnd (sqrt (rnd (rnd (v2x v * v2x v) + rnd (v2y v * v2y v))))"

definition Vector2_multiplyScalar_r :: "(real \<Rightarrow> real) \<Rightarrow> real \<Rightarrow> Vector2 \<Rightarrow> Vector2" where
  "Vector2_multiplyScalar_r rnd s v = \<lparr>v2x = rnd (v2x v * s), v2y = rnd (v2y v * s)\<rparr>"

definition Vector2_divideScalar_r :: "(real \<Rightarrow> real) \<Rightarrow> real \<Rightarrow> Vector2 \<Rightarrow> Vector2" where
  "Vector2_divideScalar_r rnd s v = Vector2_multiplyScalar_r rnd (rnd (1 / s)) v"

definition Vector2_normalize_r :: "(real \<Rightarrow> real) \<Rightarrow> Vector2 \<Rightarrow> Vector2" where
  "Vector2_normalize_r rnd v =
     Vector2_divideScalar_r rnd
       (if Vector2_length_r rnd v \<noteq> 0 then Vector2_length_r rnd v else 1) v"

definition Vector2_addScaledVector_r :: "(real \<Rightarrow> real) \<Rightarrow> Vector2 \<Rightarrow> real \<Rightarrow> Vector2 \<Rightarrow> Vector2" where
  "Vector2_addScaledVector_r rnd d s v =
     \<lparr>v2x = rnd (v2x v + rnd (v2x d * s)), v2y = rnd (v2y v + rnd (v2y d * s))\<rparr>"

definition Vector2_setLength_r :: "(real \<Rightarrow> real) \<Rightarrow> real \<Rightarrow> Vector2 \<Rightarrow> Vector2" where
  "Vector2_setLength_r rnd l v = Vector2_multiplyScalar_r rnd l (Vector2_normalize_r rnd v)"

definition Hole_input_r :: "(real \<Rightarrow> real) \<Rightarrow> Hole \<Rightarrow> Vector2" where
  "Hole_input_r rnd h =
     (let i0 = \<lparr>v2x = 0, v2y = 0\<rparr>;
          i1 = (if pressed h ''ArrowUp'' \<or> pressed h ''KeyW'' then i0\<lparr>v2y := rnd (v2y i0 - 1)\<rparr> else i0);
          i2 = (if pressed h ''ArrowDown'' \<or> pressed h ''KeyS'' then i1\<lparr>v2y := rnd (v2y i1 + 1)\<rparr> else i1);
          i3 = (if pressed h ''ArrowLeft'' \<or> pressed h ''KeyA'' then i2\<lparr>v2x := rnd (v2x i2 - 1)\<rparr> else i2);
          i4 = (if pressed h ''ArrowRight'' \<or> pressed h ''KeyD'' then i3\<lparr>v2x := rnd (v2x i3 + 1)\<rparr> else i3)
      in if Vector2_length_r rnd i4 > 0 then Vector2_normalize_r rnd i4 else i4)"

definition Hole_integrate_r :: "(real \<Rightarrow> real) \<Rightarrow> real \<Rightarrow> Hole \<Rightarrow> Vector2" where
  "Hole_integrate_r rnd dt h =
     (let inp = Hole_input_r rnd h;
          v = currentSpeed h
      in if Vector2_length_r rnd inp > 0
         then \<lparr>v2x = rnd (v2x v + rnd (rnd (v2x inp * acceleration h) * dt)),
               v2y = rnd (v2y v + rnd (rnd (v2y inp * acceleration h) * dt))\<rparr>
         else
           (let frictionStep = rnd (friction h * dt)
            in if Vector2_length_r rnd v < frictionStep then \<lparr>v2x = 0, v2y = 0\<rparr>
               else Vector2_addScaledVector_r rnd
                      (Vector2_negate (Vector2_normalize_r rnd v)) frictionStep v))"

definition Hole_capSpeed_r :: "(real \<Rightarrow> real) \<Rightarrow> Hole \<Rightarrow> Vector2 \<Rightarrow> Vector2" where
  "Hole_capSpeed_r rnd h v =
     (if Vector2_length_r rnd v > maxSpeed h then Vector2_setLength_r rnd (maxSpeed h) v else v)"

definition Hole_handleInput_r :: "(real \<Rightarrow> real) \<Rightarrow> real \<Rightarrow> Hole \<Rightarrow> Hole" where
  "Hole_handleInput_r rnd dt h =
     (let v = Hole_capSpeed_r rnd h (Hole_integrate_r rnd dt h);
          p = mesh_position h
      in h\<lparr>currentSpeed := v,
            mesh_position := p\<lparr>v3x := rnd (v3x p + rnd (v2x v * dt)),
                                v3z := rnd (v3z p + rnd (v2y v * dt))\<rparr>\<rparr>)"

definition Hole_updatePhysicsHolePos_r :: "(real \<Rightarrow> real) \<Rightarrow> Hole \<Rightarrow> error + Hole" where
  "Hole_updatePhysicsHolePos_r rnd h =
     (let x = v3x (mesh_position h);
          z = v3z (mesh_position h);
          r = radius h;
          huge = 50;
          groundThickness = 1;
          yStrata = rnd (- groundThickness / 2);
          g = groundBodies h
      in if length g < 4 then Inl TypeError
         else Inr (h\<lparr>groundBodies :=
           g[0 := (g ! 0)\<lparr>gb_position := \<lparr>v3x = rnd (rnd (x + r) + huge), v3y = yStrata, v3z = z\<rparr>\<rparr>,
             1 := (g ! 1)\<lparr>gb_position := \<lparr>v3x = rnd (rnd (x - r) - huge), v3y = yStrata, v3z = z\<rparr>\<rparr>,
             2 := (g ! 2)\<lparr>gb_position := \<lparr>v3x = x, v3y = yStrata, v3z = rnd (rnd (z - r) - huge)\<rparr>\<rparr>,
             3 := (g ! 3)\<lparr>gb_position := \<lparr>v3x = x, v3y = yStrata, v3z = rnd (rnd (z + r) + huge)\<rparr>\<rparr>]\<rparr>))"

definition Hole_update_r :: "(real \<Rightarrow> real) \<Rightarrow> real \<Rightarrow> Hole \<Rightarrow> error + Hole" where
  "Hole_update_r rnd dt h = Hole_updatePhysicsHolePos_r rnd (Hole_handleInput_r rnd dt h)"

text \<open>
  A run of frames on the hole alone: the key events that arrived since the previous
  frame, then \<open>Hole.update\<close> with the time step of the frame, which is how \<open>World.update\<close>
  drives the hole in \<open>World_frame\<close>. \<open>Hole_inputs_r\<close> is the same run without the placement
  of the ring, on which the velocity does not depend.
\<close>

fun Hole_frames_r :: "(real \<Rightarrow> real) \<Rightarrow> (key_event list \<times> real) list \<Rightarrow> Hole \<Rightarrow> error + Hole" where
  "Hole_frames_r rnd [] h = Inr h"
| "Hole_frames_r rnd ((evs, dt) # fs) h =
     (case Hole_update_r rnd dt (fold Hole_onKey evs h) of
        Inl err \<Rightarrow> Inl err
      | Inr h' \<Rightarrow> Hole_frames_r rnd fs h')"

fun Hole_inputs_r :: "(real \<Rightarrow> real) \<Rightarrow> (key_event list \<times> real) list \<Rightarrow> Hole \<Rightarrow> Hole" where
  "Hole_inputs_r rnd [] h = h"
| "Hole_inputs_r rnd ((evs, dt) # fs) h =
     Hole_inputs_r rnd fs (Hole_handleInput_r rnd dt (fold Hole_onKey evs h))"

text \<open>
  Four runs from the constructed hole, a frame being the key events and the time step
  that \<open>Game.animate\<close> computes, \<open>Math.min((currentTime - lastTime) / 1000, 0.1)\<close>: the
  double \<open>0.1\<close> for a frame of 100 ms or more, the quotient rounded for a shorter frame
  (\<open>46 / 1000 = 23 / 500\<close>).
  \<^item> \<open>frames_overshoot\<close>: down and right held for one frame, released for one frame,
    then up and right held for two frames;
  \<^item> \<open>frames_reverse\<close>: down and right held for a frame of 23 ms, released for a frame
    of 46 ms;
  \<^item> \<open>frames_coast\<close>: right held for two frames, which reaches \<open>maxSpeed\<close>, then released
    for four frames, 0.4 seconds in all;
  \<^item> \<open>frames_linger\<close>: right held for two frames, then released for five frames of
    80 ms (\<open>80 / 1000 = 2 / 25\<close>).
\<close>

definition frames_overshoot :: "(key_event list \<times> real) list" where
  "frames_overshoot =
     [([KeyDown ''ArrowDown'', KeyDown ''ArrowRight''], fl (1 / 10)),
      ([KeyUp ''ArrowDown'', KeyUp ''ArrowRight''], fl (1 / 10)),
      ([KeyDown ''ArrowUp'', KeyDown ''ArrowRight''], fl (1 / 10)),
      ([], fl (1 / 10))]"





section \<open>Supporting lemmas\<close>

subsection \<open>Vectors\<close>

lemma Vector2_length_nonneg: "0 \<le> Vector2_length v"
  by (simp add: Vector2_length_def)

lemma Vector2_length_multiplyScalar:
  "Vector2_length (Vector2_multiplyScalar s v) = \<bar>s\<bar> * Vector2_length v"
proof -
  have "v2x v * s * (v2x v * s) + v2y v * s * (v2y v * s) = s\<^sup>2 * (v2x v * v2x v + v2y v * v2y v)"
    by (simp add: power2_eq_square algebra_simps)
  then show ?thesis
    by (simp add: Vector2_length_def Vector2_multiplyScalar_def real_sqrt_mult)
qed

lemma Vector2_length_setLength:
  assumes "Vector2_length v \<noteq> 0"
  shows "Vector2_length (Vector2_setLength l v) = \<bar>l\<bar>"
proof -
  have "0 < Vector2_length v" using assms Vector2_length_nonneg [of v] by linarith
  then show ?thesis
    by (simp add: Vector2_setLength_def Vector2_normalize_def Vector2_divideScalar_def
        Vector2_length_multiplyScalar)
qed

lemma Vector2_length_setLength_le:
  "Vector2_length (Vector2_setLength l v) \<le> \<bar>l\<bar>"
proof (cases "Vector2_length v = 0")
  case True
  then show ?thesis
    by (simp add: Vector2_setLength_def Vector2_normalize_def Vector2_divideScalar_def
        Vector2_length_multiplyScalar)
next
  case False
  then show ?thesis by (simp add: Vector2_length_setLength)
qed

lemma Hole_capSpeed_le:
  assumes "0 \<le> maxSpeed h"
  shows "Vector2_length (Hole_capSpeed h v) \<le> maxSpeed h"
proof (cases "Vector2_length v > maxSpeed h")
  case True
  then have "Vector2_length v \<noteq> 0" using assms by linarith
  then show ?thesis using True assms
    by (simp add: Hole_capSpeed_def Vector2_length_setLength)
next
  case False
  then show ?thesis by (simp add: Hole_capSpeed_def)
qed

subsection \<open>The ring\<close>

lemma length4E:
  assumes "length g = 4"
  obtains a b c d where "g = [a, b, c, d]"
proof -
  from assms obtain a g1 where g: "g = a # g1" and l1: "length g1 = 3" by (cases g) auto
  from l1 obtain b g2 where g1: "g1 = b # g2" and l2: "length g2 = 2" by (cases g1) auto
  from l2 obtain c g3 where g2: "g2 = c # g3" and l3: "length g3 = 1" by (cases g2) auto
  from l3 obtain d where "g3 = [d]" by (cases g3) auto
  with g g1 g2 that show thesis by blast
qed

lemma Hole_updatePhysicsHolePos_ring:
  assumes "length (groundBodies h) = 4"
  shows "Hole_updatePhysicsHolePos h = Inr (h\<lparr>groundBodies := ring h\<rparr>)"
proof -
  from assms obtain a b c d where "groundBodies h = [a, b, c, d]" by (rule length4E)
  then show ?thesis
    by (simp add: Hole_updatePhysicsHolePos_def ring_def Let_def)
qed

lemma Hole_updatePhysicsHolePos_short:
  assumes "length (groundBodies h) < 4"
  shows "Hole_updatePhysicsHolePos h = Inl TypeError"
  using assms by (simp add: Hole_updatePhysicsHolePos_def Let_def)

lemma groundBodies_handleInput [simp]:
  "groundBodies (Hole_handleInput dt h) = groundBodies h"
  by (simp add: Hole_handleInput_def Let_def)

lemma radius_handleInput [simp]: "radius (Hole_handleInput dt h) = radius h"
  by (simp add: Hole_handleInput_def Let_def)

lemma Hole_update_ring:
  assumes "length (groundBodies h) = 4"
  shows "Hole_update dt h = Inr ((Hole_handleInput dt h)\<lparr>groundBodies := ring (Hole_handleInput dt h)\<rparr>)"
  using assms by (simp add: Hole_update_def Hole_updatePhysicsHolePos_ring)

lemma length_ring [simp]: "length (ring h) = 4"
  by (simp add: ring_def Let_def)

lemma spec_ring_placedI:
  assumes "map gb_halfExtents (groundBodies h) = replicate 4 \<lparr>v3x = 50, v3y = 1 / 2, v3z = 50\<rparr>"
    and "ring h = groundBodies h"
  shows "spec_ring_placed h"
proof -
  from assms(1) have "length (map gb_halfExtents (groundBodies h)) = 4" by simp
  then have len: "length (groundBodies h) = 4" by simp
  then obtain a b c d where g: "groundBodies h = [a, b, c, d]" by (rule length4E)
  from assms(1) g have hes: "gb_halfExtents a = \<lparr>v3x = 50, v3y = 1 / 2, v3z = 50\<rparr>"
    "gb_halfExtents b = \<lparr>v3x = 50, v3y = 1 / 2, v3z = 50\<rparr>"
    "gb_halfExtents c = \<lparr>v3x = 50, v3y = 1 / 2, v3z = 50\<rparr>"
    "gb_halfExtents d = \<lparr>v3x = 50, v3y = 1 / 2, v3z = 50\<rparr>"
    by (simp_all add: numeral_eq_Suc)
  from assms(2) g have "[a, b, c, d] = ring h" by simp
  then have pos:
    "gb_position a = \<lparr>v3x = v3x (mesh_position h) + radius h + 50, v3y = - 1 / 2, v3z = v3z (mesh_position h)\<rparr>"
    "gb_position b = \<lparr>v3x = v3x (mesh_position h) - radius h - 50, v3y = - 1 / 2, v3z = v3z (mesh_position h)\<rparr>"
    "gb_position c = \<lparr>v3x = v3x (mesh_position h), v3y = - 1 / 2, v3z = v3z (mesh_position h) - radius h - 50\<rparr>"
    "gb_position d = \<lparr>v3x = v3x (mesh_position h), v3y = - 1 / 2, v3z = v3z (mesh_position h) + radius h + 50\<rparr>"
    by (simp_all add: ring_def Let_def)
  show ?thesis
    unfolding spec_ring_placed_def Let_def g using hes pos by (simp add: numeral_eq_Suc)
qed

subsection \<open>The hole invariant\<close>

lemma Hole_ok_length: "Hole_ok h \<Longrightarrow> length (groundBodies h) = 4"
  by (metis Hole_ok_def length_ring)

lemma ring_keys [simp]: "ring (h\<lparr>keys := k\<rparr>) = ring h"
  by (simp add: ring_def)

lemma Hole_onKey_fields [simp]:
  "groundBodies (Hole_onKey ev h) = groundBodies h"
  "radius (Hole_onKey ev h) = radius h"
  "holeMask_radius (Hole_onKey ev h) = holeMask_radius h"
  "holeInterior_radius (Hole_onKey ev h) = holeInterior_radius h"
  "maxSpeed (Hole_onKey ev h) = maxSpeed h"
  "acceleration (Hole_onKey ev h) = acceleration h"
  "friction (Hole_onKey ev h) = friction h"
  "currentSpeed (Hole_onKey ev h) = currentSpeed h"
  "mesh_position (Hole_onKey ev h) = mesh_position h"
  "ring (Hole_onKey ev h) = ring h"
  by (cases ev; simp)+

lemma Hole_ok_onKey: "Hole_ok h \<Longrightarrow> Hole_ok (Hole_onKey ev h)"
  by (simp add: Hole_ok_def)

lemma Hole_ok_fold_onKey: "Hole_ok h \<Longrightarrow> Hole_ok (fold Hole_onKey evs h)"
  by (induction evs arbitrary: h) (simp_all add: Hole_ok_onKey)

lemma fold_onKey_fields [simp]:
  "radius (fold Hole_onKey evs h) = radius h"
  "currentSpeed (fold Hole_onKey evs h) = currentSpeed h"
  "mesh_position (fold Hole_onKey evs h) = mesh_position h"
  "groundBodies (fold Hole_onKey evs h) = groundBodies h"
  by (induction evs arbitrary: h) simp_all

lemma handleInput_fields [simp]:
  "holeMask_radius (Hole_handleInput dt h) = holeMask_radius h"
  "holeInterior_radius (Hole_handleInput dt h) = holeInterior_radius h"
  "maxSpeed (Hole_handleInput dt h) = maxSpeed h"
  "acceleration (Hole_handleInput dt h) = acceleration h"
  "friction (Hole_handleInput dt h) = friction h"
  "keys (Hole_handleInput dt h) = keys h"
  "currentSpeed (Hole_handleInput dt h) = Hole_capSpeed h (Hole_integrate dt h)"
  by (simp_all add: Hole_handleInput_def Let_def)

lemma ring_ring [simp]: "ring (h\<lparr>groundBodies := ring h\<rparr>) = ring h"
  by (simp add: ring_def Let_def)

lemma halfExtents_ring:
  assumes "length (groundBodies h) = 4"
  shows "map gb_halfExtents (ring h) = map gb_halfExtents (groundBodies h)"
proof -
  from assms obtain a b c d where "groundBodies h = [a, b, c, d]" by (rule length4E)
  then show ?thesis by (simp add: ring_def Let_def)
qed

lemma Hole_ok_update:
  assumes "Hole_ok h"
  shows "\<exists>h'. Hole_update dt h = Inr h' \<and> Hole_ok h'"
proof -
  let ?k = "Hole_handleInput dt h"
  let ?h' = "?k\<lparr>groundBodies := ring ?k\<rparr>"
  have len: "length (groundBodies h) = 4" using assms by (rule Hole_ok_length)
  have upd: "Hole_update dt h = Inr ?h'" using len by (rule Hole_update_ring)
  have he: "map gb_halfExtents (ring ?k) = map gb_halfExtents (groundBodies h)"
    using halfExtents_ring [of ?k] len by simp
  have sp: "Vector2_length (Hole_capSpeed h (Hole_integrate dt h)) \<le> 8"
    using Hole_capSpeed_le [of h "Hole_integrate dt h"] assms by (simp add: Hole_ok_def)
  have "Hole_ok ?h'"
    using assms he sp by (simp add: Hole_ok_def)
  with upd show ?thesis by blast
qed

subsection \<open>The store and the world invariant\<close>

lemma Scene_remove_fields [simp]:
  "scene (Scene_remove m e) = remove1 m (scene e)"
  "physicsWorld (Scene_remove m e) = physicsWorld e"
  "renderOrder (Scene_remove m e) = renderOrder e"
  by (simp_all add: Scene_remove_def)

lemma CWorld_removeBody_fields [simp]:
  "scene (CWorld_removeBody b e) = scene e"
  "physicsWorld (CWorld_removeBody b e) = remove1 b (physicsWorld e)"
  "renderOrder (CWorld_removeBody b e) = renderOrder e"
  by (simp_all add: CWorld_removeBody_def)

lemma Env_ok_remove:
  assumes "Env_ok e"
  shows "Env_ok (Scene_remove (ObjMesh i) (CWorld_removeBody (ObjBody i) e))"
proof -
  have "ObjMesh -` (set (scene e) - {ObjMesh i}) = ObjMesh -` set (scene e) - {i}"
    by auto
  moreover have "ObjBody -` (set (physicsWorld e) - {ObjBody i}) = ObjBody -` set (physicsWorld e) - {i}"
    by auto
  ultimately show ?thesis using assms
    by (simp add: Env_ok_def)
qed

lemma Hole_checkSwallow_cases:
  "Hole_checkSwallow h ob e = e \<or>
   Hole_checkSwallow h ob e = Scene_remove (obj_mesh ob) (CWorld_removeBody (obj_body ob) e)"
  by (simp add: Hole_checkSwallow_def Let_def)

lemma Env_ok_checkSwallow: "Env_ok e \<Longrightarrow> Env_ok (Hole_checkSwallow h ob e)"
  using Hole_checkSwallow_cases [of h ob e] Env_ok_remove [of e "obj_id ob"] by auto

lemma World_sync_ok:
  assumes "World_sync h obs e = (obs', e')" and "Env_ok e"
  shows "Env_ok e' \<and> map obj_id obs' = map obj_id obs"
  using assms
proof (induction obs arbitrary: e obs' e')
  case Nil
  then show ?case by simp
next
  case (Cons ob obs)
  let ?ob = "ob\<lparr>obj_mesh_position := obj_body_position ob\<rparr>"
  let ?e = "Hole_checkSwallow h ?ob e"
  obtain r1 r2 where r: "World_sync h obs ?e = (r1, r2)" by (cases "World_sync h obs ?e")
  have ok: "Env_ok ?e" using Cons.prems(2) by (rule Env_ok_checkSwallow)
  from Cons.IH [OF r ok] have ih: "Env_ok r2" "map obj_id r1 = map obj_id obs" by simp_all
  from Cons.prems(1) r have "obs' = ?ob # r1" "e' = r2" by (simp_all add: Let_def)
  with ih show ?case by simp
qed

lemma World_step_fields [simp]:
  "env (World_step eng dt w) = env w"
  "hole (World_step eng dt w) = hole w"
  "map obj_id (objects (World_step eng dt w)) = map obj_id (objects w)"
  by (simp_all add: World_step_def comp_def)

lemma World_update_hole:
  assumes "World_update eng dt w = Inr w'"
  shows "Hole_update dt (hole w) = Inr (hole w')"
  using assms
  by (auto simp: World_update_def Let_def split: prod.splits sum.splits)

lemma World_update_cong:
  assumes "World_step eng dt w = World_step eng' dt w"
  shows "World_update eng dt w = World_update eng' dt w"
  using assms by (simp add: World_update_def)

lemma World_ok_update:
  assumes "World_ok w"
  shows "\<exists>w'. World_update eng dt w = Inr w' \<and> World_ok w'"
proof -
  let ?w1 = "World_step eng dt w"
  obtain obs e where s: "World_sync (hole ?w1) (objects ?w1) (env ?w1) = (obs, e)"
    by (cases "World_sync (hole ?w1) (objects ?w1) (env ?w1)")
  from assms have eok: "Env_ok (env ?w1)" by (simp add: World_ok_def)
  from World_sync_ok [OF s eok] have e: "Env_ok e" and ids: "map obj_id obs = map obj_id (objects w)"
    by simp_all
  from assms have "Hole_ok (hole w)" by (simp add: World_ok_def)
  then obtain h' where h': "Hole_update dt (hole w) = Inr h'" "Hole_ok h'"
    using Hole_ok_update by blast
  let ?obs = "filter (\<lambda>ob. obj_mesh ob \<in> set (scene e)) obs"
  let ?w' = "\<lparr>env = e, hole = h', objects = ?obs\<rparr>"
  have upd: "World_update eng dt w = Inr ?w'"
    using s h' by (simp add: World_update_def Let_def)
  have "distinct (map obj_id obs)" using ids assms by (simp add: World_ok_def)
  then have d: "distinct (map obj_id ?obs)" by (rule distinct_map_filter)
  have "World_ok ?w'" using e h'(2) d by (auto simp: World_ok_def)
  with upd show ?thesis by blast
qed

lemma World_ok_frame:
  assumes "World_ok w"
  shows "\<exists>w'. World_frame f w = Inr w' \<and> World_ok w'"
proof -
  obtain evs dt eng where f: "f = (evs, dt, eng)" by (cases f)
  have "World_ok (w\<lparr>hole := fold Hole_onKey evs (hole w)\<rparr>)"
    using assms by (simp add: World_ok_def Hole_ok_fold_onKey)
  from World_ok_update [OF this, of eng dt] show ?thesis by (simp add: World_frame_def f)
qed

lemma World_ok_run:
  assumes "World_ok w"
  shows "\<exists>w'. World_run fs w = Inr w' \<and> World_ok w'"
  using assms
proof (induction fs arbitrary: w)
  case Nil
  then show ?case by simp
next
  case (Cons f fs)
  from World_ok_frame [OF Cons.prems] obtain w1 where
    w1: "World_frame f w = Inr w1" "World_ok w1" by blast
  from Cons.IH [OF w1(2)] w1(1) show ?case by simp
qed

subsection \<open>The constructors\<close>

lemma World_spawned_ok: "World_spawned i w \<Longrightarrow> World_ok w"
proof -
  assume a: "World_spawned i w"
  then have "obj_id ` set (objects w) = {..<i}"
    by (metis World_spawned_def atLeast_upt set_map)
  moreover have "distinct (map obj_id (objects w))" using a by (simp add: World_spawned_def)
  ultimately show ?thesis using a by (simp add: World_spawned_def World_ok_def Env_ok_def)
qed

lemma World_spawned_add:
  assumes "World_spawned i w"
  shows "World_spawned (Suc i) (World_addPhysicsObject i p w)"
proof -
  have 1: "ObjMesh i \<notin> set (scene (env w))" "ObjBody i \<notin> set (physicsWorld (env w))"
    using assms by (auto simp: World_spawned_def)
  have 2: "ObjMesh -` insert (ObjMesh i) (set (scene (env w))) = insert i (ObjMesh -` set (scene (env w)))"
    "ObjBody -` insert (ObjBody i) (set (physicsWorld (env w))) = insert i (ObjBody -` set (physicsWorld (env w)))"
    by auto
  show ?thesis using assms 1 2
    by (simp add: World_spawned_def World_addPhysicsObject_def Let_def Scene_add_def
        CWorld_addBody_def lessThan_Suc)
qed

lemma World_spawned_addDecorations:
  "World_spawned i w \<Longrightarrow> World_spawned (i + length ps) (World_addDecorations i ps w)"
proof (induction ps arbitrary: i w)
  case Nil
  then show ?case by simp
next
  case (Cons p ps)
  from Cons.IH [OF World_spawned_add [OF Cons.prems]] show ?case by simp
qed

lemma Hole_new_start:
  "Hole_new \<lparr>scene = [AmbientLight, DirLight], physicsWorld = [], renderOrder = (\<lambda>n. 0)\<rparr>
     = Inr (Hole_start, Env_start)"
  by (simp add: Hole_new_def Hole_setupPhysics_def Hole_setupVisuals_def Hole_fields_def
      Scene_add_def CWorld_addBody_def Hole_updatePhysicsHolePos_def Let_def
      numeral_eq_Suc Hole_start_def Env_start_def)

lemma World_new_start:
  "World_new ps = Inr (World_addDecorations 0 ps \<lparr>env = Env_start, hole = Hole_start, objects = []\<rparr>)"
  using Hole_new_start by (simp add: World_new_def Let_def Scene_add_def)

lemma Hole_ok_start: "Hole_ok Hole_start"
  by (simp add: Hole_ok_def Hole_start_def ring_def Vector2_length_def numeral_eq_Suc)

lemma World_spawned_start:
  "World_spawned 0 \<lparr>env = Env_start, hole = Hole_start, objects = []\<rparr>"
  using Hole_ok_start by (auto simp: World_spawned_def Env_start_def)

lemma World_ok_new: "\<exists>w. World_new ps = Inr w \<and> World_ok w"
  using World_spawned_ok [OF World_spawned_addDecorations [OF World_spawned_start, of ps]]
  by (simp add: World_new_start)

lemma session_ok: "\<exists>w. session ps fs = Inr w \<and> World_ok w"
proof -
  obtain w0 where w0: "World_new ps = Inr w0" "World_ok w0" using World_ok_new by blast
  from World_ok_run [OF w0(2), of fs] w0(1) show ?thesis by (simp add: session_def)
qed

subsection \<open>Friction in exact arithmetic\<close>

lemma Vector2_length_zero_iff: "Vector2_length v = 0 \<longleftrightarrow> v2x v = 0 \<and> v2y v = 0"
proof -
  have "v2x v * v2x v + v2y v * v2y v = 0 \<longleftrightarrow> v2x v = 0 \<and> v2y v = 0"
    using sum_squares_eq_zero_iff [of "v2x v" "v2y v"] by simp
  then show ?thesis by (simp add: Vector2_length_def)
qed

lemma decay_range: "0 \<le> s \<Longrightarrow> 0 \<le> m \<Longrightarrow> 0 \<le> decay m s \<and> decay m s \<le> 1"
  by (auto simp: decay_def field_simps)

lemma decay_length: "0 \<le> s \<Longrightarrow> 0 \<le> m \<Longrightarrow> decay m s * m = max 0 (m - s)"
  by (auto simp: decay_def field_simps max_def)

lemma Hole_integrate_friction:
  assumes "Hole_input h = \<lparr>v2x = 0, v2y = 0\<rparr>" and "0 \<le> friction h * dt"
  shows "Hole_integrate dt h =
     Vector2_multiplyScalar (decay (Vector2_length (currentSpeed h)) (friction h * dt)) (currentSpeed h)"
proof -
  let ?v = "currentSpeed h"
  let ?m = "Vector2_length ?v"
  let ?s = "friction h * dt"
  have inp: "\<not> Vector2_length (Hole_input h) > 0" using assms(1) by (simp add: Vector2_length_def)
  show ?thesis
  proof (cases "?m < ?s")
    case True
    then show ?thesis using inp
      by (simp add: Hole_integrate_def Let_def decay_def Vector2_multiplyScalar_def)
  next
    case False
    show ?thesis
    proof (cases "?m = 0")
      case True
      then have "v2x ?v = 0" "v2y ?v = 0" by (simp_all add: Vector2_length_zero_iff)
      then show ?thesis using inp False True
        by (simp add: Hole_integrate_def Let_def decay_def Vector2_multiplyScalar_def
            Vector2_addScaledVector_def Vector2_negate_def Vector2_normalize_def
            Vector2_divideScalar_def)
    next
      case nz: False
      then show ?thesis using inp False
        by (simp add: Hole_integrate_def Let_def decay_def Vector2_multiplyScalar_def
            Vector2_addScaledVector_def Vector2_negate_def Vector2_normalize_def
            Vector2_divideScalar_def algebra_simps)
    qed
  qed
qed

lemma Hole_handleInput_friction:
  assumes "Hole_input h = \<lparr>v2x = 0, v2y = 0\<rparr>" and "0 \<le> friction h * dt"
    and "Vector2_length (currentSpeed h) \<le> maxSpeed h"
  shows "currentSpeed (Hole_handleInput dt h) =
     Vector2_multiplyScalar (decay (Vector2_length (currentSpeed h)) (friction h * dt)) (currentSpeed h)"
    and "Vector2_length (currentSpeed (Hole_handleInput dt h)) =
     max 0 (Vector2_length (currentSpeed h) - friction h * dt)"
proof -
  let ?m = "Vector2_length (currentSpeed h)"
  let ?s = "friction h * dt"
  have m0: "0 \<le> ?m" by (rule Vector2_length_nonneg)
  have r: "0 \<le> decay ?m ?s" using decay_range [OF assms(2) m0] by simp
  have len: "Vector2_length (Hole_integrate dt h) = max 0 (?m - ?s)"
    using r decay_length [OF assms(2) m0]
    by (simp add: Hole_integrate_friction [OF assms(1,2)] Vector2_length_multiplyScalar)
  then have "\<not> Vector2_length (Hole_integrate dt h) > maxSpeed h"
    using assms(2,3) m0 by (simp add: max_def split: if_splits)
  then have cap: "Hole_capSpeed h (Hole_integrate dt h) = Hole_integrate dt h"
    by (simp add: Hole_capSpeed_def)
  show "currentSpeed (Hole_handleInput dt h) =
     Vector2_multiplyScalar (decay ?m ?s) (currentSpeed h)"
  proof -
    have "currentSpeed (Hole_handleInput dt h) = Hole_integrate dt h" by (simp add: cap)
    also note Hole_integrate_friction [OF assms(1,2)]
    finally show ?thesis .
  qed
  show "Vector2_length (currentSpeed (Hole_handleInput dt h)) = max 0 (?m - ?s)"
    by (simp add: cap len)
qed

lemma Hole_input_keys: "keys h' = keys h \<Longrightarrow> Hole_input h' = Hole_input h"
  by (simp add: Hole_input_def pressed_def)

lemma Hole_update_friction:
  assumes "Hole_input h = \<lparr>v2x = 0, v2y = 0\<rparr>" and "length (groundBodies h) = 4"
    and "0 \<le> friction h" and "Vector2_length (currentSpeed h) \<le> maxSpeed h" and "0 \<le> dt"
  shows "\<exists>h'. Hole_update dt h = Inr h' \<and>
           Hole_input h' = \<lparr>v2x = 0, v2y = 0\<rparr> \<and> length (groundBodies h') = 4 \<and>
           friction h' = friction h \<and> maxSpeed h' = maxSpeed h \<and>
           currentSpeed h' =
             Vector2_multiplyScalar (decay (Vector2_length (currentSpeed h)) (friction h * dt))
               (currentSpeed h) \<and>
           Vector2_length (currentSpeed h') =
             max 0 (Vector2_length (currentSpeed h) - friction h * dt)"
proof -
  let ?k = "Hole_handleInput dt h"
  let ?h' = "?k\<lparr>groundBodies := ring ?k\<rparr>"
  have s: "0 \<le> friction h * dt" using assms(3,5) by simp
  have upd: "Hole_update dt h = Inr ?h'" using assms(2) by (rule Hole_update_ring)
  have "Hole_input ?h' = Hole_input h" by (rule Hole_input_keys) simp
  then have "Hole_input ?h' = \<lparr>v2x = 0, v2y = 0\<rparr>" using assms(1) by simp
  moreover note Hole_handleInput_friction [OF assms(1) s assms(4)]
  ultimately show ?thesis using upd by simp
qed

lemma multiplyScalar_twice:
  "Vector2_multiplyScalar a (Vector2_multiplyScalar b v) = Vector2_multiplyScalar (b * a) v"
  by (simp add: Vector2_multiplyScalar_def)

lemma Hole_updates_friction:
  assumes "Hole_input h = \<lparr>v2x = 0, v2y = 0\<rparr>" and "length (groundBodies h) = 4"
    and "0 \<le> friction h" and "Vector2_length (currentSpeed h) \<le> maxSpeed h"
    and "\<forall>d\<in>set dts. 0 \<le> d"
  shows "\<exists>h' c. Hole_updates dts h = Inr h' \<and> 0 \<le> c \<and> c \<le> 1 \<and>
           currentSpeed h' = Vector2_multiplyScalar c (currentSpeed h) \<and>
           Vector2_length (currentSpeed h') =
             max 0 (Vector2_length (currentSpeed h) - friction h * sum_list dts)"
  using assms
proof (induction dts arbitrary: h)
  case Nil
  have "currentSpeed h = Vector2_multiplyScalar 1 (currentSpeed h)"
    by (simp add: Vector2_multiplyScalar_def)
  moreover have "0 \<le> Vector2_length (currentSpeed h)" by (rule Vector2_length_nonneg)
  ultimately show ?case by (auto simp: max_def intro!: exI [of _ 1])
next
  case (Cons d dts)
  let ?m = "Vector2_length (currentSpeed h)"
  have d0: "0 \<le> d" and rest: "\<forall>d\<in>set dts. 0 \<le> d" using Cons.prems(5) by simp_all
  have m0: "0 \<le> ?m" by (rule Vector2_length_nonneg)
  have s0: "0 \<le> friction h * d" using Cons.prems(3) d0 by simp
  have s1: "0 \<le> friction h * sum_list dts"
    using Cons.prems(3) rest by (simp add: sum_list_nonneg)
  from Hole_update_friction [OF Cons.prems(1-4) d0] obtain h1 where
    h1: "Hole_update d h = Inr h1" "Hole_input h1 = \<lparr>v2x = 0, v2y = 0\<rparr>"
      "length (groundBodies h1) = 4" "friction h1 = friction h" "maxSpeed h1 = maxSpeed h"
      "currentSpeed h1 = Vector2_multiplyScalar (decay ?m (friction h * d)) (currentSpeed h)"
      "Vector2_length (currentSpeed h1) = max 0 (?m - friction h * d)"
    by blast
  have le1: "Vector2_length (currentSpeed h1) \<le> maxSpeed h1"
    using h1(5,7) Cons.prems(4) s0 m0 by (simp add: max_def)
  have f1: "0 \<le> friction h1" using h1(4) Cons.prems(3) by simp
  from Cons.IH [OF h1(2,3) f1 le1 rest] obtain h' c where
    h': "Hole_updates dts h1 = Inr h'" "0 \<le> c" "c \<le> 1"
      "currentSpeed h' = Vector2_multiplyScalar c (currentSpeed h1)"
      "Vector2_length (currentSpeed h') =
         max 0 (Vector2_length (currentSpeed h1) - friction h1 * sum_list dts)"
    by blast
  let ?c = "decay ?m (friction h * d) * c"
  have r: "0 \<le> decay ?m (friction h * d)" "decay ?m (friction h * d) \<le> 1"
    using decay_range [OF s0 m0] by simp_all
  have c0: "0 \<le> ?c" using r(1) h'(2) by simp
  have c1: "?c \<le> 1" using r h'(2,3) by (simp add: mult_le_one)
  have run: "Hole_updates (d # dts) h = Inr h'" using h1(1) h'(1) by simp
  have v: "currentSpeed h' = Vector2_multiplyScalar ?c (currentSpeed h)"
    using h'(4) h1(6) by (simp add: multiplyScalar_twice)
  have "max 0 (max 0 (?m - friction h * d) - friction h * sum_list dts) =
        max 0 (?m - friction h * (d + sum_list dts))"
    using s1 by (simp add: max_def algebra_simps)
  then have l: "Vector2_length (currentSpeed h') =
      max 0 (?m - friction h * sum_list (d # dts))"
    using h'(5) h1(4,7) by simp
  from run c0 c1 v l show ?case by blast
qed


subsection \<open>Arbitrary calls\<close>

lemma Hole_new_any:
  "\<exists>e'. Hole_new e = Inr (Hole_start, e')"
  by (simp add: Hole_new_def Hole_setupPhysics_def Hole_setupVisuals_def Hole_fields_def
      Scene_add_def CWorld_addBody_def Hole_updatePhysicsHolePos_def Let_def
      numeral_eq_Suc Hole_start_def)

lemma Hole_ok_call:
  assumes "Hole_ok h"
  shows "\<exists>h' e'. Hole_call c (h, e) = Inr (h', e') \<and> Hole_ok h'"
proof (cases c)
  case (Update dt)
  then show ?thesis using Hole_ok_update [OF assms, of dt] by auto
next
  case (CheckSwallow ob)
  then show ?thesis using assms by simp
next
  case (Key ev)
  then show ?thesis using Hole_ok_onKey [OF assms] by simp
qed

lemma Hole_ok_calls:
  assumes "Hole_ok h"
  shows "\<exists>h' e'. Hole_calls cs (h, e) = Inr (h', e') \<and> Hole_ok h'"
  using assms
proof (induction cs arbitrary: h e)
  case Nil
  then show ?case by simp
next
  case (Cons c cs)
  from Hole_ok_call [OF Cons.prems, of c e] obtain h1 e1 where
    1: "Hole_call c (h, e) = Inr (h1, e1)" "Hole_ok h1" by blast
  from Cons.IH [OF 1(2), of e1] 1(1) show ?case by simp
qed

lemma calls_radius:
  "\<exists>h e'. (case Hole_new e of Inl err \<Rightarrow> Inl err | Inr s \<Rightarrow> Hole_calls cs s) = Inr (h, e') \<and>
          radius h = 1.5 \<and> holeMask_radius h = 1.5 \<and> holeInterior_radius h = 1.5"
proof -
  obtain e0 where e0: "Hole_new e = Inr (Hole_start, e0)" using Hole_new_any by blast
  from Hole_ok_calls [OF Hole_ok_start, of cs e0] obtain h e' where
    "Hole_calls cs (Hole_start, e0) = Inr (h, e')" "Hole_ok h" by blast
  then show ?thesis using e0 by (simp add: Hole_ok_def)
qed

subsection \<open>Frames and the radius\<close>

lemma Hole_updatePhysicsHolePos_frame:
  assumes "Hole_updatePhysicsHolePos h = Inr h'"
  shows "\<exists>g. h' = h\<lparr>groundBodies := g\<rparr>"
  using assms by (auto simp: Hole_updatePhysicsHolePos_def Let_def split: if_splits)

lemma Hole_update_radius:
  assumes "Hole_update dt h = Inr h'"
  shows "radius h' = radius h"
proof -
  from assms obtain g where "h' = (Hole_handleInput dt h)\<lparr>groundBodies := g\<rparr>"
    using Hole_updatePhysicsHolePos_frame unfolding Hole_update_def by blast
  then show ?thesis by simp
qed

lemma World_frame_radius:
  assumes "World_frame f w = Inr w'"
  shows "radius (hole w') = radius (hole w)"
proof -
  obtain evs dt eng where f: "f = (evs, dt, eng)" by (cases f)
  let ?h = "fold Hole_onKey evs (hole w)"
  from assms have "Hole_update dt ?h = Inr (hole w')"
    using World_update_hole [of eng dt "w\<lparr>hole := ?h\<rparr>" w'] by (simp add: World_frame_def f)
  then have "radius (hole w') = radius ?h" by (rule Hole_update_radius)
  then show ?thesis by simp
qed

lemma World_run_append:
  "World_run (fs @ gs) w =
     (case World_run fs w of Inl err \<Rightarrow> Inl err | Inr w' \<Rightarrow> World_run gs w')"
  by (induction fs arbitrary: w) (simp_all split: sum.splits)

lemma session_snoc:
  assumes "session ps fs = Inr w"
  shows "session ps (fs @ [f]) = World_frame f w"
  using assms
  by (auto simp: session_def World_run_append split: sum.splits)

subsection \<open>Evaluation\<close>

lemma Hole_checkSwallow_eq:
  "Hole_checkSwallow h ob e =
     (if sqrt ((v3x (obj_mesh_position ob) - v3x (mesh_position h)) *
               (v3x (obj_mesh_position ob) - v3x (mesh_position h)) +
               (v3z (obj_mesh_position ob) - v3z (mesh_position h)) *
               (v3z (obj_mesh_position ob) - v3z (mesh_position h))) + 0.5 < radius h \<and>
         v3y (obj_mesh_position ob) < - 5
      then Scene_remove (obj_mesh ob) (CWorld_removeBody (obj_body ob) e)
      else e)"
  by (simp add: Hole_checkSwallow_def Let_def)

lemma Vector2_length_x [simp]: "Vector2_length \<lparr>v2x = a, v2y = 0\<rparr> = \<bar>a\<bar>"
  by (simp add: Vector2_length_def)

lemma Hole_input_right: "Hole_input Hole_right = \<lparr>v2x = 1, v2y = 0\<rparr>"
  by (simp add: Hole_input_def Hole_right_def Hole_start_def pressed_def Let_def
      Vector2_normalize_def Vector2_divideScalar_def Vector2_multiplyScalar_def)

lemma Hole_handleInput_right:
  "Hole_handleInput 0.1 Hole_right =
     Hole_right\<lparr>currentSpeed := \<lparr>v2x = 4, v2y = 0\<rparr>,
                mesh_position := \<lparr>v3x = 0.4, v3y = 0, v3z = 0\<rparr>\<rparr>"
proof -
  have "Hole_integrate 0.1 Hole_right = \<lparr>v2x = 4, v2y = 0\<rparr>"
    by (simp add: Hole_integrate_def Hole_input_right Let_def)
      (simp add: Hole_right_def Hole_start_def)
  moreover have "Hole_capSpeed Hole_right \<lparr>v2x = 4, v2y = 0\<rparr> = \<lparr>v2x = 4, v2y = 0\<rparr>"
    by (simp add: Hole_capSpeed_def Hole_right_def Hole_start_def)
  ultimately show ?thesis
    by (simp add: Hole_handleInput_def Let_def) (simp add: Hole_right_def Hole_start_def)
qed

subsection \<open>Rounding to a double\<close>

text \<open>
  One rounding changes a number by at most \<open>2^-53\<close> times its magnitude, and the rounded
  value of a given number is found by exhibiting its exponent and its significand.
\<close>

lemma rne_error: "\<bar>of_int (rne q) - q\<bar> \<le> 1 / 2"
proof -
  have "of_int \<lfloor>q\<rfloor> \<le> q" "q < of_int \<lfloor>q\<rfloor> + 1" by linarith+
  then show ?thesis by (auto simp: rne_def Let_def)
qed

lemma two_powr: "2 powr (of_int n) = (2::real) powi n"
  by (simp add: powr_real_of_int')

lemma binade:
  assumes "y \<noteq> 0"
  shows "2 powi \<lfloor>log 2 \<bar>y\<bar>\<rfloor> \<le> \<bar>y\<bar>" and "\<bar>y\<bar> < 2 powi (\<lfloor>log 2 \<bar>y\<bar>\<rfloor> + 1)"
proof -
  have pos: "0 < \<bar>y\<bar>" using assms by simp
  let ?k = "\<lfloor>log 2 \<bar>y\<bar>\<rfloor>"
  have "of_int ?k \<le> log 2 \<bar>y\<bar>" by linarith
  then have "2 powr (of_int ?k) \<le> \<bar>y\<bar>" using pos by (simp add: powr_le_iff)
  then show "2 powi ?k \<le> \<bar>y\<bar>" unfolding two_powr .
  have "log 2 \<bar>y\<bar> < of_int (?k + 1)" by linarith
  then have "\<bar>y\<bar> < 2 powr (of_int (?k + 1))" using pos less_powr_iff [of 2 "\<bar>y\<bar>" "of_int (?k + 1)"] by linarith
  then show "\<bar>y\<bar> < 2 powi (?k + 1)" unfolding two_powr .
qed

lemma floor_log2_eqI:
  assumes "2 powi k \<le> \<bar>y\<bar>" and "\<bar>y\<bar> < 2 powi (k + 1)"
  shows "\<lfloor>log 2 \<bar>y\<bar>\<rfloor> = k"
proof -
  have pos: "0 < \<bar>y\<bar>" using assms(1) zero_less_power_int [of "2::real" k] by linarith
  have "2 powr (of_int k) \<le> \<bar>y\<bar>" using assms(1) unfolding two_powr .
  then have 1: "of_int k \<le> log 2 \<bar>y\<bar>" using pos by (simp add: powr_le_iff)
  have "\<bar>y\<bar> < 2 powr (of_int (k + 1))" using assms(2) unfolding two_powr .
  then have 2: "log 2 \<bar>y\<bar> < of_int (k + 1)" using pos less_powr_iff [of 2 "\<bar>y\<bar>" "of_int (k + 1)"] by linarith
  from 1 2 show ?thesis by linarith
qed

lemma fl_error:
  "\<bar>fl y - y\<bar> \<le> \<bar>y\<bar> / 2 ^ 53"
proof (cases "y = 0")
  case True
  then show ?thesis by (simp add: fl_def)
next
  case False
  let ?k = "\<lfloor>log 2 \<bar>y\<bar>\<rfloor>"
  let ?p = "(2::real) powi (?k - 52)"
  have p: "0 < ?p" by (simp add: zero_less_power_int)
  have fl: "fl y = of_int (rne (y / ?p)) * ?p" using False by (simp add: fl_def Let_def)
  have "\<bar>of_int (rne (y / ?p)) - y / ?p\<bar> \<le> 1 / 2" by (rule rne_error)
  then have "\<bar>of_int (rne (y / ?p)) - y / ?p\<bar> * ?p \<le> 1 / 2 * ?p"
    using p by (intro mult_right_mono) simp_all
  moreover have "\<bar>of_int (rne (y / ?p)) - y / ?p\<bar> * ?p = \<bar>fl y - y\<bar>"
  proof -
    have "\<bar>of_int (rne (y / ?p)) - y / ?p\<bar> * ?p = \<bar>(of_int (rne (y / ?p)) - y / ?p) * ?p\<bar>"
      using p by (simp add: abs_mult)
    also have "(of_int (rne (y / ?p)) - y / ?p) * ?p = fl y - y"
      using p by (simp add: fl field_simps)
    finally show ?thesis .
  qed
  ultimately have 1: "\<bar>fl y - y\<bar> \<le> ?p / 2" by simp
  have "?p = 2 powi ?k / 2 ^ 52"
    by (simp add: power_int_diff)
  then have "?p / 2 = 2 powi ?k / 2 ^ 53" by simp
  also have "\<dots> \<le> \<bar>y\<bar> / 2 ^ 53"
    using binade(1) [OF False] by (simp add: divide_right_mono)
  finally show ?thesis using 1 by linarith
qed

lemma rne_eqI: "\<bar>q - of_int m\<bar> < 1 / 2 \<Longrightarrow> rne q = m"
proof -
  assume a: "\<bar>q - of_int m\<bar> < 1 / 2"
  show ?thesis
  proof (cases "of_int m \<le> q")
    case True
    then have "\<lfloor>q\<rfloor> = m" using a by (intro floor_unique) (simp_all add: abs_if split: if_splits)
    then show ?thesis using a True by (simp add: rne_def Let_def)
  next
    case False
    then have "\<lfloor>q\<rfloor> = m - 1" using a by (intro floor_unique) (simp_all add: abs_if split: if_splits)
    then show ?thesis using a False by (simp add: rne_def Let_def)
  qed
qed

lemma rne_half_up: "q = of_int m - 1 / 2 \<Longrightarrow> even m \<Longrightarrow> rne q = m"
proof -
  assume a: "q = of_int m - 1 / 2" and e: "even m"
  have "\<lfloor>q\<rfloor> = m - 1" using a by (intro floor_unique) simp_all
  then show ?thesis using a e by (simp add: rne_def Let_def)
qed

lemma rne_half_down: "q = of_int m + 1 / 2 \<Longrightarrow> even m \<Longrightarrow> rne q = m"
proof -
  assume a: "q = of_int m + 1 / 2" and e: "even m"
  have "\<lfloor>q\<rfloor> = m" using a by (intro floor_unique) simp_all
  then show ?thesis using a e by (simp add: rne_def Let_def)
qed

lemma fl_eq_scaled:
  assumes "2 ^ 52 \<le> \<bar>y\<bar> * 2 ^ n" and "\<bar>y\<bar> * 2 ^ n < 2 ^ 53" and "rne (y * 2 ^ n) = m"
  shows "fl y = of_int m / 2 ^ n"
proof -
  define P :: real where "P = 2 ^ n"
  define A :: real where "A = 2 ^ 52"
  have P: "0 < P" by (simp add: P_def)
  have a1: "A \<le> \<bar>y\<bar> * P" using assms(1) by (simp add: P_def A_def)
  have a2: "\<bar>y\<bar> * P < 2 * A" using assms(2) by (simp add: P_def A_def)
  have nz: "y \<noteq> 0" using a1 by (auto simp: A_def)
  have e1: "(2::real) powi (52 - int n) = A / P"
    by (simp add: power_int_diff P_def A_def)
  have e2: "(2::real) powi (52 - int n + 1) = 2 * A / P"
    by (simp add: power_int_diff power_int_add P_def A_def)
  have 1: "2 powi (52 - int n) \<le> \<bar>y\<bar>"
    unfolding e1 using a1 P by (simp add: pos_divide_le_eq)
  have 2: "\<bar>y\<bar> < 2 powi (52 - int n + 1)"
    unfolding e2 using a2 P by (simp add: pos_less_divide_eq)
  have k: "\<lfloor>log 2 \<bar>y\<bar>\<rfloor> = 52 - int n" using 1 2 by (rule floor_log2_eqI)
  have p: "(2::real) powi (- int n) = 1 / P"
    by (simp add: power_int_minus field_simps P_def)
  have "fl y = of_int (rne (y / (1 / P))) * (1 / P)"
    using nz by (simp add: fl_def Let_def k p)
  also have "y / (1 / P) = y * 2 ^ n" by (simp add: P_def)
  finally show ?thesis using assms(3) by (simp add: P_def)
qed

lemma fl_eq:
  assumes "2 ^ 52 \<le> \<bar>y\<bar> * 2 ^ n" and "\<bar>y\<bar> * 2 ^ n < 2 ^ 53" and "\<bar>y * 2 ^ n - of_int m\<bar> < 1 / 2"
  shows "fl y = of_int m / 2 ^ n"
  using assms(1,2) rne_eqI [OF assms(3)] by (rule fl_eq_scaled)

lemma fl_sqrt_eq:
  assumes "0 \<le> a" and "0 < m"
    and "2 ^ 104 \<le> a * 4 ^ n" and "a * 4 ^ n < 2 ^ 106"
    and "(2 * of_int m - 1)\<^sup>2 < 4 * (a * 4 ^ n)" and "4 * (a * 4 ^ n) < (2 * of_int m + 1)\<^sup>2"
  shows "fl (sqrt a) = of_int m / 2 ^ n"
proof -
  let ?s = "sqrt a * 2 ^ n"
  have "((2::real) ^ n)\<^sup>2 = 4 ^ n" by (induction n) (simp_all add: power2_eq_square)
  then have s2: "?s\<^sup>2 = a * 4 ^ n"
    using assms(1) by (simp add: power_mult_distrib)
  have s0: "0 \<le> ?s" using assms(1) by simp
  have "((2::real) ^ 52)\<^sup>2 \<le> ?s\<^sup>2" using assms(3) s2 by simp
  then have 1: "2 ^ 52 \<le> ?s" using s0 by (rule power2_le_imp_le)
  have "?s\<^sup>2 < ((2::real) ^ 53)\<^sup>2" using assms(4) s2 by simp
  then have 2: "?s < 2 ^ 53" by (rule power2_less_imp_less) simp
  have "(2 * of_int m - 1)\<^sup>2 < (2 * ?s)\<^sup>2" using assms(5) s2 by (simp add: power_mult_distrib)
  moreover have "0 \<le> 2 * real_of_int m - 1" using assms(2) by simp
  ultimately have 3: "2 * of_int m - 1 < 2 * ?s"
    using s0 by (intro power2_less_imp_less [of "2 * of_int m - 1" "2 * ?s"]) simp_all
  have "(2 * ?s)\<^sup>2 < (2 * of_int m + 1)\<^sup>2" using assms(6) s2 by (simp add: power_mult_distrib)
  moreover have "0 \<le> 2 * real_of_int m + 1" using assms(2) by simp
  ultimately have 4: "2 * ?s < 2 * of_int m + 1"
    by (intro power2_less_imp_less [of "2 * ?s" "2 * of_int m + 1"]) simp_all
  have 5: "\<bar>?s - of_int m\<bar> < 1 / 2" using 3 4 by (simp add: abs_if)
  have "\<bar>sqrt a\<bar> = sqrt a" using assms(1) by simp
  then show ?thesis using 1 2 5 fl_eq [of "sqrt a" n m] by simp
qed

subsection \<open>The rounded model\<close>

text \<open>Without rounding the second model of the movement is the first one.\<close>

lemma exact_length: "Vector2_length_r (\<lambda>x. x) v = Vector2_length v"
  by (simp add: Vector2_length_r_def Vector2_length_def)

lemma exact_normalize: "Vector2_normalize_r (\<lambda>x. x) v = Vector2_normalize v"
  by (simp add: Vector2_normalize_r_def Vector2_normalize_def Vector2_divideScalar_r_def
      Vector2_divideScalar_def Vector2_multiplyScalar_r_def Vector2_multiplyScalar_def exact_length)

lemma exact_input: "Hole_input_r (\<lambda>x. x) h = Hole_input h"
  unfolding Hole_input_r_def Hole_input_def exact_length exact_normalize ..

lemma exact_addScaledVector:
  "Vector2_addScaledVector_r (\<lambda>x. x) d s v = Vector2_addScaledVector d s v"
  by (simp add: Vector2_addScaledVector_r_def Vector2_addScaledVector_def)

lemma exact_integrate: "Hole_integrate_r (\<lambda>x. x) dt h = Hole_integrate dt h"
  unfolding Hole_integrate_r_def Hole_integrate_def exact_length exact_normalize exact_input
    exact_addScaledVector ..

lemma exact_capSpeed: "Hole_capSpeed_r (\<lambda>x. x) h v = Hole_capSpeed h v"
  by (simp add: Hole_capSpeed_r_def Hole_capSpeed_def exact_length exact_normalize
      Vector2_setLength_r_def Vector2_setLength_def Vector2_multiplyScalar_r_def
      Vector2_multiplyScalar_def)

lemma exact_handleInput: "Hole_handleInput_r (\<lambda>x. x) dt h = Hole_handleInput dt h"
  unfolding Hole_handleInput_r_def Hole_handleInput_def exact_capSpeed exact_integrate ..

lemma handleInput_r_fields [simp]:
  "maxSpeed (Hole_handleInput_r rnd dt h) = maxSpeed h"
  "acceleration (Hole_handleInput_r rnd dt h) = acceleration h"
  "friction (Hole_handleInput_r rnd dt h) = friction h"
  "keys (Hole_handleInput_r rnd dt h) = keys h"
  "radius (Hole_handleInput_r rnd dt h) = radius h"
  "currentSpeed (Hole_handleInput_r rnd dt h) = Hole_capSpeed_r rnd h (Hole_integrate_r rnd dt h)"
  by (simp_all add: Hole_handleInput_r_def Let_def)

subsection \<open>Error bounds\<close>

text \<open>
  The computed length of a vector is within two roundings of its length, the cap leaves
  a vector of length at most \<open>maxSpeed * (1 + 2^-50)\<close>, and one step of friction followed
  by the cap returns each component of the velocity scaled by \<open>decay\<close>, up to 66 roundings.
\<close>

lemma eps_pos: "0 < eps" and eps_less: "eps < 1"
  by (simp_all add: eps_def)

lemma fl_zero [simp]: "fl 0 = 0"
  by (simp add: fl_def)

lemma fl_abs_error: "\<bar>fl y - y\<bar> \<le> \<bar>y\<bar> * eps"
  using fl_error [of y] by (simp add: eps_def)

lemma fl_ge: "0 \<le> y \<Longrightarrow> y * (1 - eps) \<le> fl y"
  using fl_abs_error [of y] by (simp add: algebra_simps abs_le_iff)

lemma fl_le: "0 \<le> y \<Longrightarrow> fl y \<le> y * (1 + eps)"
  using fl_abs_error [of y] by (simp add: algebra_simps abs_le_iff)

lemma fl_nonneg: "0 \<le> y \<Longrightarrow> 0 \<le> fl y"
proof -
  assume y: "0 \<le> y"
  have "0 \<le> y * (1 - eps)" using y eps_less by simp
  then show ?thesis using fl_ge [OF y] by linarith
qed

lemma fl_abs_le: "\<bar>fl y\<bar> \<le> \<bar>y\<bar> * (1 + eps)"
proof -
  have "\<bar>fl y\<bar> \<le> \<bar>y\<bar> + \<bar>fl y - y\<bar>" by linarith
  then show ?thesis using fl_abs_error [of y] by (simp add: algebra_simps)
qed

lemma fl_abs_ge: "\<bar>y\<bar> * (1 - eps) \<le> \<bar>fl y\<bar>"
proof -
  have "\<bar>y\<bar> \<le> \<bar>fl y\<bar> + \<bar>fl y - y\<bar>" by linarith
  then show ?thesis using fl_abs_error [of y] by (simp add: algebra_simps)
qed

lemma length_fl_bounds:
  "(1 - eps)\<^sup>2 * Vector2_length v \<le> Vector2_length_r fl v"
  "Vector2_length_r fl v \<le> (1 + eps)\<^sup>2 * Vector2_length v"
proof -
  let ?x = "v2x v" and ?y = "v2y v"
  let ?q = "?x * ?x + ?y * ?y"
  let ?a = "fl (?x * ?x)" and ?b = "fl (?y * ?y)"
  let ?S = "fl (?a + ?b)"
  have e: "0 < 1 - eps" "0 < 1 + eps" using eps_pos eps_less by simp_all
  have q0: "0 \<le> ?q" by simp
  have a: "?x * ?x * (1 - eps) \<le> ?a" "?a \<le> ?x * ?x * (1 + eps)" "0 \<le> ?a"
    by (simp_all add: fl_ge fl_le fl_nonneg)
  have b: "?y * ?y * (1 - eps) \<le> ?b" "?b \<le> ?y * ?y * (1 + eps)" "0 \<le> ?b"
    by (simp_all add: fl_ge fl_le fl_nonneg)
  have ab0: "0 \<le> ?a + ?b" using a(3) b(3) by simp
  have ab1: "?q * (1 - eps) \<le> ?a + ?b" using a(1) b(1) by (simp add: algebra_simps)
  have ab2: "?a + ?b \<le> ?q * (1 + eps)" using a(2) b(2) by (simp add: algebra_simps)
  have S0: "0 \<le> ?S" using ab0 by (rule fl_nonneg)
  have "?q * (1 - eps) * (1 - eps) \<le> (?a + ?b) * (1 - eps)"
    using ab1 e(1) by (simp add: mult_right_mono)
  also have "\<dots> \<le> ?S" using ab0 by (rule fl_ge)
  finally have S1: "?q * (1 - eps)\<^sup>2 \<le> ?S" by (simp add: power2_eq_square algebra_simps)
  have "?S \<le> (?a + ?b) * (1 + eps)" using ab0 by (rule fl_le)
  also have "\<dots> \<le> ?q * (1 + eps) * (1 + eps)"
    using ab2 e(2) by (simp add: mult_right_mono)
  finally have S2: "?S \<le> ?q * (1 + eps)\<^sup>2" by (simp add: power2_eq_square algebra_simps)
  have r1: "sqrt (?q * (1 - eps)\<^sup>2) = Vector2_length v * (1 - eps)"
    using e(1) by (simp add: real_sqrt_mult Vector2_length_def)
  have r2: "sqrt (?q * (1 + eps)\<^sup>2) = Vector2_length v * (1 + eps)"
    using e(2) by (simp add: real_sqrt_mult Vector2_length_def)
  have s1: "Vector2_length v * (1 - eps) \<le> sqrt ?S"
    using S1 r1 real_sqrt_le_mono by metis
  have s2: "sqrt ?S \<le> Vector2_length v * (1 + eps)"
    using S2 r2 real_sqrt_le_mono by metis
  have s0: "0 \<le> sqrt ?S" using S0 by simp
  have L: "Vector2_length_r fl v = fl (sqrt ?S)" by (simp add: Vector2_length_r_def)
  have "Vector2_length v * (1 - eps) * (1 - eps) \<le> sqrt ?S * (1 - eps)"
    using s1 e(1) by (simp add: mult_right_mono)
  also have "\<dots> \<le> fl (sqrt ?S)" using s0 by (rule fl_ge)
  finally show "(1 - eps)\<^sup>2 * Vector2_length v \<le> Vector2_length_r fl v"
    by (simp add: L power2_eq_square algebra_simps)
  have "fl (sqrt ?S) \<le> sqrt ?S * (1 + eps)" using s0 by (rule fl_le)
  also have "\<dots> \<le> Vector2_length v * (1 + eps) * (1 + eps)"
    using s2 e(2) by (simp add: mult_right_mono)
  finally show "Vector2_length_r fl v \<le> (1 + eps)\<^sup>2 * Vector2_length v"
    by (simp add: L power2_eq_square algebra_simps)
qed

lemma Vector2_length_scaled:
  assumes "\<bar>a\<bar> \<le> k * \<bar>x\<bar>" and "\<bar>b\<bar> \<le> k * \<bar>y\<bar>" and "0 \<le> k"
  shows "Vector2_length \<lparr>v2x = a, v2y = b\<rparr> \<le> k * Vector2_length \<lparr>v2x = x, v2y = y\<rparr>"
proof -
  have "a * a \<le> (k * \<bar>x\<bar>) * (k * \<bar>x\<bar>)"
    using assms(1) by (metis abs_ge_zero abs_mult_self_eq mult_mono' )
  moreover have "b * b \<le> (k * \<bar>y\<bar>) * (k * \<bar>y\<bar>)"
    using assms(2) by (metis abs_ge_zero abs_mult_self_eq mult_mono')
  ultimately have "a * a + b * b \<le> k\<^sup>2 * (x * x + y * y)"
    by (simp add: power2_eq_square algebra_simps)
  then have "sqrt (a * a + b * b) \<le> sqrt (k\<^sup>2 * (x * x + y * y))"
    by (rule real_sqrt_le_mono)
  then show ?thesis using assms(3) by (simp add: Vector2_length_def real_sqrt_mult)
qed

lemma eps_num:
  "(1 + eps) ^ 3 \<le> (1 + 1 / 2 ^ 50) * (1 - eps)\<^sup>2"
  "(1 + eps) ^ 5 \<le> (1 + 1 / 2 ^ 50) * (1 - eps)\<^sup>2"
  "1 \<le> (1 + 1 / 2 ^ 50) * (1 - eps)\<^sup>2"
  by (simp_all add: eps_def power_divide)

lemma normalize_fl:
  assumes "Vector2_length_r fl v \<noteq> 0"
  shows "Vector2_normalize_r fl v =
     \<lparr>v2x = fl (v2x v * fl (1 / Vector2_length_r fl v)),
      v2y = fl (v2y v * fl (1 / Vector2_length_r fl v))\<rparr>"
  using assms
  by (simp add: Vector2_normalize_r_def Vector2_divideScalar_r_def Vector2_multiplyScalar_r_def)

lemma length_exact_pos:
  assumes "0 < Vector2_length_r fl v"
  shows "0 < Vector2_length v"
proof -
  have "0 \<le> Vector2_length v" by (rule Vector2_length_nonneg)
  moreover have "Vector2_length v \<noteq> 0"
  proof
    assume "Vector2_length v = 0"
    then have "Vector2_length_r fl v \<le> 0" using length_fl_bounds(2) [of v] by simp
    then show False using assms by simp
  qed
  ultimately show ?thesis by simp
qed

lemma capSpeed_fl_bound:
  assumes "0 \<le> maxSpeed h"
  shows "Vector2_length (Hole_capSpeed_r fl h v) \<le> maxSpeed h * (1 + 1 / 2 ^ 50)"
    and "Vector2_length_r fl (Hole_capSpeed_r fl h v) \<le> maxSpeed h * (1 + 1 / 2 ^ 50)"
proof -
  define m where "m = maxSpeed h"
  define L where "L = Vector2_length_r fl v"
  define R where "R = Vector2_length v"
  define E where "E = (1 + 1 / 2 ^ 50 :: real)"
  have m0: "0 \<le> m" using assms by (simp add: m_def)
  have e: "0 < 1 - eps" "0 < 1 + eps" using eps_pos eps_less by simp_all
  have E1: "(1 + eps) ^ 3 \<le> E * (1 - eps)\<^sup>2" "(1 + eps) ^ 5 \<le> E * (1 - eps)\<^sup>2"
    "1 \<le> E * (1 - eps)\<^sup>2"
    using eps_num by (simp_all add: E_def)
  have d: "0 < (1 - eps)\<^sup>2" using e(1) by simp
  have LR: "(1 - eps)\<^sup>2 * R \<le> L" "L \<le> (1 + eps)\<^sup>2 * R"
    using length_fl_bounds [of v] by (simp_all add: L_def R_def)
  have R0: "0 \<le> R" by (simp add: R_def Vector2_length_nonneg)
  have both: "Vector2_length (Hole_capSpeed_r fl h v) \<le> m * E \<and>
              Vector2_length_r fl (Hole_capSpeed_r fl h v) \<le> m * E"
  proof (cases "m < L")
    case False
    then have w: "Hole_capSpeed_r fl h v = v" by (simp add: Hole_capSpeed_r_def L_def m_def)
    have "(1 - eps)\<^sup>2 * R \<le> m" using LR(1) False by linarith
    moreover have "m * 1 \<le> m * (E * (1 - eps)\<^sup>2)" using E1(3) m0 by (rule mult_left_mono)
    ultimately have "(1 - eps)\<^sup>2 * R \<le> m * (E * (1 - eps)\<^sup>2)" by simp
    then have "R * (1 - eps)\<^sup>2 \<le> (m * E) * (1 - eps)\<^sup>2" by (simp add: algebra_simps)
    then have 1: "R \<le> m * E" using d by (rule mult_right_le_imp_le)
    have "1 \<le> E" by (simp add: E_def)
    then have "m \<le> m * E" using m0 by (simp add: mult_le_cancel_left1)
    then have 2: "L \<le> m * E" using False by linarith
    from 1 2 show ?thesis by (simp add: w R_def L_def)
  next
    case True
    then have L0: "0 < L" using m0 by linarith
    then have Rpos: "0 < R" using length_exact_pos [of v] by (simp add: L_def R_def)
    define s where "s = fl (1 / L)"
    have s0: "0 \<le> s" using L0 by (simp add: s_def fl_nonneg)
    have s1: "s \<le> (1 / L) * (1 + eps)" unfolding s_def using L0 by (intro fl_le) simp
    define x2 where "x2 = fl (fl (v2x v * s) * m)"
    define y2 where "y2 = fl (fl (v2y v * s) * m)"
    have w: "Hole_capSpeed_r fl h v = \<lparr>v2x = x2, v2y = y2\<rparr>"
      using True L0
      by (simp add: Hole_capSpeed_r_def Vector2_setLength_r_def normalize_fl
          Vector2_multiplyScalar_r_def L_def m_def x2_def y2_def s_def)
    define K where "K = m * (1 + eps) ^ 3 / L"
    have K0: "0 \<le> K" using m0 L0 e(2) by (simp add: K_def)
    have comp: "\<bar>fl (fl (c * s) * m)\<bar> \<le> K * \<bar>c\<bar>" for c
    proof -
      have "\<bar>fl (fl (c * s) * m)\<bar> \<le> \<bar>fl (c * s) * m\<bar> * (1 + eps)" by (rule fl_abs_le)
      also have "\<dots> = \<bar>fl (c * s)\<bar> * (m * (1 + eps))" using m0 by (simp add: abs_mult)
      also have "\<dots> \<le> (\<bar>c * s\<bar> * (1 + eps)) * (m * (1 + eps))"
        using fl_abs_le [of "c * s"] m0 e(2) by (intro mult_right_mono) simp_all
      also have "\<dots> = \<bar>c\<bar> * (m * (1 + eps)\<^sup>2) * s"
        using s0 by (simp add: abs_mult power2_eq_square algebra_simps)
      also have "\<dots> \<le> \<bar>c\<bar> * (m * (1 + eps)\<^sup>2) * ((1 / L) * (1 + eps))"
        using s1 m0 by (intro mult_left_mono) simp_all
      also have "\<dots> = K * \<bar>c\<bar>"
      proof -
        define P where "P = 1 + eps"
        have "\<bar>c\<bar> * (m * P\<^sup>2) * ((1 / L) * P) = m * P ^ 3 / L * \<bar>c\<bar>"
          by (simp add: power2_eq_square power3_eq_cube)
        then show ?thesis by (simp add: K_def P_def)
      qed
      finally show ?thesis .
    qed
    have "Vector2_length \<lparr>v2x = x2, v2y = y2\<rparr> \<le> K * Vector2_length \<lparr>v2x = v2x v, v2y = v2y v\<rparr>"
      unfolding x2_def y2_def using comp K0 by (intro Vector2_length_scaled) simp_all
    then have wl: "Vector2_length \<lparr>v2x = x2, v2y = y2\<rparr> \<le> K * R"
      by (simp add: R_def Vector2_length_def)
    have KR: "K * R * (1 - eps)\<^sup>2 \<le> m * (1 + eps) ^ 3"
    proof -
      have "K * R * (1 - eps)\<^sup>2 = (m * (1 + eps) ^ 3 / L) * ((1 - eps)\<^sup>2 * R)"
        by (simp add: K_def algebra_simps)
      also have "\<dots> \<le> (m * (1 + eps) ^ 3 / L) * L"
        using LR(1) m0 L0 e(2) by (intro mult_left_mono) simp_all
      also have "\<dots> = m * (1 + eps) ^ 3" using L0 by simp
      finally show ?thesis .
    qed
    have "m * (1 + eps) ^ 3 \<le> m * (E * (1 - eps)\<^sup>2)"
      using E1(1) m0 by (rule mult_left_mono)
    then have "K * R * (1 - eps)\<^sup>2 \<le> (m * E) * (1 - eps)\<^sup>2"
      using KR by (simp add: algebra_simps)
    then have KRE: "K * R \<le> m * E" using d by (rule mult_right_le_imp_le)
    have 1: "Vector2_length \<lparr>v2x = x2, v2y = y2\<rparr> \<le> m * E" using wl KRE by linarith
    have "Vector2_length_r fl \<lparr>v2x = x2, v2y = y2\<rparr> \<le> (1 + eps)\<^sup>2 * Vector2_length \<lparr>v2x = x2, v2y = y2\<rparr>"
      by (rule length_fl_bounds)
    also have "\<dots> \<le> (1 + eps)\<^sup>2 * (K * R)"
      using wl by (intro mult_left_mono) simp_all
    finally have c1: "Vector2_length_r fl \<lparr>v2x = x2, v2y = y2\<rparr> \<le> (1 + eps)\<^sup>2 * (K * R)" .
    have "(1 + eps)\<^sup>2 * (K * R) * (1 - eps)\<^sup>2 = (1 + eps)\<^sup>2 * (K * R * (1 - eps)\<^sup>2)"
      by (simp add: algebra_simps)
    also have "\<dots> \<le> (1 + eps)\<^sup>2 * (m * (1 + eps) ^ 3)"
      using KR by (intro mult_left_mono) simp_all
    also have "\<dots> = m * (1 + eps) ^ 5"
    proof -
      define P where "P = 1 + eps"
      have "P\<^sup>2 * (m * P ^ 3) = m * P ^ 5" by (simp add: eval_nat_numeral)
      then show ?thesis by (simp add: P_def)
    qed
    also have "\<dots> \<le> m * (E * (1 - eps)\<^sup>2)" using E1(2) m0 by (rule mult_left_mono)
    finally have "(1 + eps)\<^sup>2 * (K * R) * (1 - eps)\<^sup>2 \<le> (m * E) * (1 - eps)\<^sup>2"
      by (simp add: algebra_simps)
    then have "(1 + eps)\<^sup>2 * (K * R) \<le> m * E" using d by (rule mult_right_le_imp_le)
    then have 2: "Vector2_length_r fl \<lparr>v2x = x2, v2y = y2\<rparr> \<le> m * E" using c1 by linarith
    from 1 2 show ?thesis by (simp add: w)
  qed
  then show "Vector2_length (Hole_capSpeed_r fl h v) \<le> maxSpeed h * (1 + 1 / 2 ^ 50)"
    and "Vector2_length_r fl (Hole_capSpeed_r fl h v) \<le> maxSpeed h * (1 + 1 / 2 ^ 50)"
    by (simp_all add: m_def E_def)
qed
















lemma Vector2_length_r_zero [simp]: "Vector2_length_r fl \<lparr>v2x = 0, v2y = 0\<rparr> = 0"
  by (simp add: Vector2_length_r_def)

lemma Vector2_length_zero [simp]: "Vector2_length \<lparr>v2x = 0, v2y = 0\<rparr> = 0"
  by (simp add: Vector2_length_def)




subsection \<open>Runs of frames\<close>

text \<open>
  \<open>Hole.update\<close> returns whenever the ring has its four bodies, a run of frames differs
  from the run of \<open>handleInput\<close> alone in the ring only, and every run from the
  constructed hole keeps the bound on the speed.
\<close>

lemma exact_updatePhysicsHolePos:
  "Hole_updatePhysicsHolePos_r (\<lambda>x. x) h = Hole_updatePhysicsHolePos h"
  unfolding Hole_updatePhysicsHolePos_r_def Hole_updatePhysicsHolePos_def ..

lemma exact_update: "Hole_update_r (\<lambda>x. x) dt h = Hole_update dt h"
  unfolding Hole_update_r_def Hole_update_def exact_updatePhysicsHolePos exact_handleInput ..

lemma Hole_updatePhysicsHolePos_r_ok:
  assumes "length (groundBodies h) = 4"
  shows "\<exists>h'. Hole_updatePhysicsHolePos_r rnd h = Inr h' \<and>
              h' = h\<lparr>groundBodies := groundBodies h'\<rparr> \<and> length (groundBodies h') = 4"
  using assms by (simp add: Hole_updatePhysicsHolePos_r_def Let_def)

lemma groundBodies_handleInput_r [simp]:
  "groundBodies (Hole_handleInput_r rnd dt h) = groundBodies h"
  by (simp add: Hole_handleInput_r_def Let_def)

lemma Hole_update_r_ok:
  assumes "length (groundBodies h) = 4"
  shows "\<exists>h'. Hole_update_r rnd dt h = Inr h' \<and>
              h' = (Hole_handleInput_r rnd dt h)\<lparr>groundBodies := groundBodies h'\<rparr> \<and>
              length (groundBodies h') = 4"
  unfolding Hole_update_r_def using assms by (intro Hole_updatePhysicsHolePos_r_ok) simp

lemma Hole_onKey_groundBodies:
  "Hole_onKey ev (h\<lparr>groundBodies := g\<rparr>) = (Hole_onKey ev h)\<lparr>groundBodies := g\<rparr>"
  by (cases ev) simp_all

lemma fold_onKey_groundBodies:
  "fold Hole_onKey evs (h\<lparr>groundBodies := g\<rparr>) = (fold Hole_onKey evs h)\<lparr>groundBodies := g\<rparr>"
  by (induction evs arbitrary: h) (simp_all add: Hole_onKey_groundBodies)

lemma Hole_input_r_groundBodies [simp]:
  "Hole_input_r rnd (h\<lparr>groundBodies := g\<rparr>) = Hole_input_r rnd h"
  by (simp add: Hole_input_r_def pressed_def)

lemma Hole_integrate_r_groundBodies [simp]:
  "Hole_integrate_r rnd dt (h\<lparr>groundBodies := g\<rparr>) = Hole_integrate_r rnd dt h"
  by (simp add: Hole_integrate_r_def Let_def)

lemma Hole_capSpeed_r_groundBodies [simp]:
  "Hole_capSpeed_r rnd (h\<lparr>groundBodies := g\<rparr>) v = Hole_capSpeed_r rnd h v"
  by (simp add: Hole_capSpeed_r_def)

lemma Hole_handleInput_r_groundBodies:
  "Hole_handleInput_r rnd dt (h\<lparr>groundBodies := g\<rparr>) =
     (Hole_handleInput_r rnd dt h)\<lparr>groundBodies := g\<rparr>"
  by (simp add: Hole_handleInput_r_def Let_def)

lemma Hole_inputs_r_groundBodies:
  "Hole_inputs_r rnd fs (h\<lparr>groundBodies := g\<rparr>) = (Hole_inputs_r rnd fs h)\<lparr>groundBodies := g\<rparr>"
  by (induction rnd fs h rule: Hole_inputs_r.induct)
     (simp_all add: fold_onKey_groundBodies Hole_handleInput_r_groundBodies)

lemma Hole_frames_r_inputs:
  assumes "length (groundBodies h) = 4"
  shows "\<exists>h'. Hole_frames_r rnd fs h = Inr h' \<and>
              h' = (Hole_inputs_r rnd fs h)\<lparr>groundBodies := groundBodies h'\<rparr> \<and>
              length (groundBodies h') = 4"
  using assms
proof (induction fs arbitrary: h)
  case Nil
  then show ?case by simp
next
  case (Cons f fs)
  obtain evs dt where f: "f = (evs, dt)" by (cases f)
  let ?k = "fold Hole_onKey evs h"
  let ?u = "Hole_handleInput_r rnd dt ?k"
  have "length (groundBodies ?k) = 4" using Cons.prems by simp
  then obtain h1 where h1: "Hole_update_r rnd dt ?k = Inr h1"
    "h1 = ?u\<lparr>groundBodies := groundBodies h1\<rparr>" "length (groundBodies h1) = 4"
    using Hole_update_r_ok by blast
  from Cons.IH [OF h1(3)] obtain h' where h': "Hole_frames_r rnd fs h1 = Inr h'"
    "h' = (Hole_inputs_r rnd fs h1)\<lparr>groundBodies := groundBodies h'\<rparr>"
    "length (groundBodies h') = 4"
    by blast
  have "Hole_inputs_r rnd fs h1 = (Hole_inputs_r rnd fs ?u)\<lparr>groundBodies := groundBodies h1\<rparr>"
    using h1(2) Hole_inputs_r_groundBodies by metis
  then have "h' = (Hole_inputs_r rnd fs ?u)\<lparr>groundBodies := groundBodies h'\<rparr>"
    using h'(2) by simp
  then have "h' = (Hole_inputs_r rnd (f # fs) h)\<lparr>groundBodies := groundBodies h'\<rparr>"
    by (simp add: f)
  moreover have "Hole_frames_r rnd (f # fs) h = Inr h'" by (simp add: f h1(1) h'(1))
  ultimately show ?case using h'(3) by blast
qed

lemma Hole_inputs_r_bound:
  assumes "maxSpeed h = 8"
    and "Vector2_length (currentSpeed h) \<le> 8 * (1 + 1 / 2 ^ 50)"
    and "Vector2_length_r fl (currentSpeed h) \<le> 8 * (1 + 1 / 2 ^ 50)"
  shows "maxSpeed (Hole_inputs_r fl fs h) = 8 \<and>
         Vector2_length (currentSpeed (Hole_inputs_r fl fs h)) \<le> 8 * (1 + 1 / 2 ^ 50) \<and>
         Vector2_length_r fl (currentSpeed (Hole_inputs_r fl fs h)) \<le> 8 * (1 + 1 / 2 ^ 50)"
  using assms
proof (induction fs arbitrary: h)
  case Nil
  then show ?case by simp
next
  case (Cons f fs)
  obtain evs dt where f: "f = (evs, dt)" by (cases f)
  let ?k = "fold Hole_onKey evs h"
  let ?u = "Hole_handleInput_r fl dt ?k"
  have m: "maxSpeed ?k = 8"
    using Cons.prems(1) by (induction evs arbitrary: h) simp_all
  then have 0: "0 \<le> maxSpeed ?k" by simp
  have "maxSpeed ?u = 8" using m by simp
  moreover have "Vector2_length (currentSpeed ?u) \<le> 8 * (1 + 1 / 2 ^ 50)"
    "Vector2_length_r fl (currentSpeed ?u) \<le> 8 * (1 + 1 / 2 ^ 50)"
    using capSpeed_fl_bound [OF 0, of "Hole_integrate_r fl dt ?k"] m by simp_all
  ultimately show ?case using Cons.IH [of ?u] by (simp add: f)
qed


lemma Hole_frames_r_start:
  "\<exists>h'. Hole_frames_r fl fs Hole_start = Inr h' \<and>
        currentSpeed h' = currentSpeed (Hole_inputs_r fl fs Hole_start) \<and>
        maxSpeed h' = maxSpeed (Hole_inputs_r fl fs Hole_start) \<and>
        friction h' = friction (Hole_inputs_r fl fs Hole_start) \<and>
        (\<forall>evs. Hole_input_r fl (fold Hole_onKey evs h') =
               Hole_input_r fl (fold Hole_onKey evs (Hole_inputs_r fl fs Hole_start)))"
proof -
  have "length (groundBodies Hole_start) = 4" by (simp add: Hole_start_def)
  from Hole_frames_r_inputs [OF this, of fl fs] obtain h' where
    h': "Hole_frames_r fl fs Hole_start = Inr h'"
      "h' = (Hole_inputs_r fl fs Hole_start)\<lparr>groundBodies := groundBodies h'\<rparr>"
    by blast
  have 1: "currentSpeed h' = currentSpeed (Hole_inputs_r fl fs Hole_start)"
    by (subst h'(2)) simp
  have 2: "maxSpeed h' = maxSpeed (Hole_inputs_r fl fs Hole_start)"
    by (subst h'(2)) simp
  have 3: "Hole_input_r fl (fold Hole_onKey evs h') =
      Hole_input_r fl (fold Hole_onKey evs (Hole_inputs_r fl fs Hole_start))" for evs
    by (subst h'(2), subst fold_onKey_groundBodies) simp
  have 4: "friction h' = friction (Hole_inputs_r fl fs Hole_start)"
    by (subst h'(2)) simp
  show ?thesis using h'(1) 1 2 3 4 by blast
qed

lemma Hole_frames_r_bound:
  "\<exists>h'. Hole_frames_r fl fs Hole_start = Inr h' \<and> maxSpeed h' = 8 \<and>
        Vector2_length (currentSpeed h') \<le> 8 * (1 + 1 / 2 ^ 50) \<and>
        Vector2_length_r fl (currentSpeed h') \<le> 8 * (1 + 1 / 2 ^ 50)"
proof -
  obtain h' where h': "Hole_frames_r fl fs Hole_start = Inr h'"
    "currentSpeed h' = currentSpeed (Hole_inputs_r fl fs Hole_start)"
    "maxSpeed h' = maxSpeed (Hole_inputs_r fl fs Hole_start)"
    using Hole_frames_r_start by blast
  have "maxSpeed Hole_start = 8"
    "Vector2_length (currentSpeed Hole_start) \<le> 8 * (1 + 1 / 2 ^ 50)"
    "Vector2_length_r fl (currentSpeed Hole_start) \<le> 8 * (1 + 1 / 2 ^ 50)"
    by (simp_all add: Hole_start_def)
  from Hole_inputs_r_bound [OF this, of fs]
  have "maxSpeed h' = 8 \<and>
        Vector2_length (currentSpeed h') \<le> 8 * (1 + 1 / 2 ^ 50) \<and>
        Vector2_length_r fl (currentSpeed h') \<le> 8 * (1 + 1 / 2 ^ 50)"
    unfolding h'(2,3) .
  then show ?thesis using h'(1) by blast
qed

subsection \<open>Evaluation in double arithmetic\<close>

text \<open>
  The roundings that occur in the four runs, each with its exponent and significand,
  then the velocity after each frame of each run.
\<close>

lemma fl_val_1: "fl (1 / 10) = 3602879701896397 / 36028797018963968"
  using fl_eq [of "1 / 10" 56 "7205759403792794"] by simp

lemma fl_val_2: "fl (1) = 1"
  using fl_eq [of "1" 52 "4503599627370496"] by simp

lemma fl_val_3: "fl (2) = 2"
  using fl_eq [of "2" 51 "4503599627370496"] by simp

lemma fl_val_4: "fl (sqrt (2)) = 6369051672525773 / 4503599627370496"
  using fl_sqrt_eq [of "2" "6369051672525773" 52] by simp

lemma fl_val_5: "fl (4503599627370496 / 6369051672525773) = 1592262918131443 / 2251799813685248"
  using fl_eq [of "4503599627370496 / 6369051672525773" 53 "6369051672525772"] by simp

lemma fl_val_6: "fl (1592262918131443 / 2251799813685248) = 1592262918131443 / 2251799813685248"
  using fl_eq [of "1592262918131443 / 2251799813685248" 53 "6369051672525772"] by simp

lemma fl_val_7: "fl (2535301200456458353478625262249 / 5070602400912917605986812821504) = 4503599627370495 / 9007199254740992"
  using fl_eq [of "2535301200456458353478625262249 / 5070602400912917605986812821504" 54 "9007199254740990"] by simp

lemma fl_val_8: "fl (4503599627370495 / 4503599627370496) = 4503599627370495 / 4503599627370496"
  using fl_eq [of "4503599627370495 / 4503599627370496" 53 "9007199254740990"] by simp

lemma fl_val_9: "fl (sqrt (4503599627370495 / 4503599627370496)) = 9007199254740991 / 9007199254740992"
  using fl_sqrt_eq [of "4503599627370495 / 4503599627370496" "9007199254740991" 53] by simp

lemma fl_val_10: "fl (7961314590657215 / 281474976710656) = 7961314590657215 / 281474976710656"
  using fl_eq [of "7961314590657215 / 281474976710656" 48 "7961314590657215"] by simp

lemma fl_val_11: "fl (28683658739090502687814070554355 / 10141204801825835211973625643008) = 1592262918131443 / 562949953421312"
  using fl_eq [of "28683658739090502687814070554355 / 10141204801825835211973625643008" 51 "6369051672525772"] by simp

lemma fl_val_12: "fl (1592262918131443 / 562949953421312) = 1592262918131443 / 562949953421312"
  using fl_eq [of "1592262918131443 / 562949953421312" 51 "6369051672525772"] by simp

lemma fl_val_13: "fl (2535301200456458353478625262249 / 316912650057057350374175801344) = 4503599627370495 / 562949953421312"
  using fl_eq [of "2535301200456458353478625262249 / 316912650057057350374175801344" 50 "9007199254740990"] by simp

lemma fl_val_14: "fl (4503599627370495 / 281474976710656) = 4503599627370495 / 281474976710656"
  using fl_eq [of "4503599627370495 / 281474976710656" 49 "9007199254740990"] by simp

lemma fl_val_15: "fl (sqrt (4503599627370495 / 281474976710656)) = 9007199254740991 / 2251799813685248"
  using fl_sqrt_eq [of "4503599627370495 / 281474976710656" "9007199254740991" 51] by simp

lemma fl_val_16: "fl (18014398509481985 / 9007199254740992) = 2"
  using fl_eq [of "18014398509481985 / 9007199254740992" 51 "4503599627370496"] by simp

lemma fl_val_17: "fl (2251799813685248 / 9007199254740991) = 4503599627370497 / 18014398509481984"
  using fl_eq [of "2251799813685248 / 9007199254740991" 54 "4503599627370497"] by simp

lemma fl_val_18: "fl (7170914684772626866150706237171 / 10141204801825835211973625643008) = 6369051672525773 / 9007199254740992"
  using fl_eq [of "7170914684772626866150706237171 / 10141204801825835211973625643008" 53 "6369051672525773"] by simp

lemma fl_val_19: "fl (- (6369051672525773 / 4503599627370496)) = - (6369051672525773 / 4503599627370496)"
  using fl_eq [of "- (6369051672525773 / 4503599627370496)" 52 "- 6369051672525773"] by simp

lemma fl_val_20: "fl (6369051672525771 / 4503599627370496) = 6369051672525771 / 4503599627370496"
  using fl_eq [of "6369051672525771 / 4503599627370496" 52 "6369051672525771"] by simp

lemma fl_val_21: "fl (40564819207303320917554659144441 / 20282409603651670423947251286016) = 2251799813685247 / 1125899906842624"
  using fl_eq [of "40564819207303320917554659144441 / 20282409603651670423947251286016" 52 "9007199254740988"] by simp

lemma fl_val_22: "fl (2251799813685247 / 562949953421312) = 2251799813685247 / 562949953421312"
  using fl_eq [of "2251799813685247 / 562949953421312" 51 "9007199254740988"] by simp

lemma fl_val_23: "fl (sqrt (2251799813685247 / 562949953421312)) = 4503599627370495 / 2251799813685248"
  using fl_sqrt_eq [of "2251799813685247 / 562949953421312" "9007199254740990" 52] by simp

lemma fl_val_24: "fl (- 1) = - 1"
  using fl_eq [of "- 1" 52 "- 4503599627370496"] by simp

lemma fl_val_25: "fl (- (1592262918131443 / 2251799813685248)) = - (1592262918131443 / 2251799813685248)"
  using fl_eq [of "- (1592262918131443 / 2251799813685248)" 53 "- 6369051672525772"] by simp

lemma fl_val_26: "fl (19107155017577315 / 4503599627370496) = 4776788754394329 / 1125899906842624"
  using fl_eq [of "19107155017577315 / 4503599627370496" 50 "4776788754394329"] by simp

lemma fl_val_27: "fl (- (7961314590657215 / 281474976710656)) = - (7961314590657215 / 281474976710656)"
  using fl_eq [of "- (7961314590657215 / 281474976710656)" 48 "- 7961314590657215"] by simp

lemma fl_val_28: "fl (- (28683658739090502687814070554355 / 10141204801825835211973625643008)) = - (1592262918131443 / 562949953421312)"
  using fl_eq [of "- (28683658739090502687814070554355 / 10141204801825835211973625643008)" 51 "- 6369051672525772"] by simp

lemma fl_val_29: "fl (22817710804108125181307627360241 / 1267650600228229401496703205376) = 5066549580791807 / 281474976710656"
  using fl_eq [of "22817710804108125181307627360241 / 1267650600228229401496703205376" 48 "5066549580791807"] by simp

lemma fl_val_30: "fl (40564819207303346393761349247529 / 20282409603651670423947251286016) = 4503599627370497 / 2251799813685248"
  using fl_eq [of "40564819207303346393761349247529 / 20282409603651670423947251286016" 51 "4503599627370497"] by simp

lemma fl_val_31: "fl (45035996273704953 / 2251799813685248) = 5629499534213119 / 281474976710656"
  using fl_eq [of "45035996273704953 / 2251799813685248" 48 "5629499534213119"] by simp

lemma fl_val_32: "fl (sqrt (5629499534213119 / 281474976710656)) = 5035177455121575 / 1125899906842624"
  using fl_sqrt_eq [of "5629499534213119 / 281474976710656" "5035177455121575" 50] by simp

lemma fl_val_33: "fl (7961314590657215 / 1125899906842624) = 7961314590657215 / 1125899906842624"
  using fl_eq [of "7961314590657215 / 1125899906842624" 50 "7961314590657215"] by simp

lemma fl_val_34: "fl (- (19107155017577317 / 4503599627370496)) = - (4776788754394329 / 1125899906842624)"
  using fl_eq [of "- (19107155017577317 / 4503599627370496)" 50 "- 4776788754394329"] by simp

lemma fl_val_35: "fl (63382530011411458836965631556225 / 1267650600228229401496703205376) = 7036874417766399 / 140737488355328"
  using fl_eq [of "63382530011411458836965631556225 / 1267650600228229401496703205376" 47 "7036874417766399"] by simp

lemma fl_val_36: "fl (19140298416324605 / 281474976710656) = 4785074604081151 / 70368744177664"
  using fl_eq [of "19140298416324605 / 281474976710656" 46 "4785074604081151"] by simp

lemma fl_val_37: "fl (sqrt (4785074604081151 / 70368744177664)) = 2321102119892611 / 281474976710656"
  using fl_sqrt_eq [of "4785074604081151 / 70368744177664" "4642204239785222" 49] by simp

lemma fl_val_38: "fl (281474976710656 / 2321102119892611) = 4369133402150799 / 36028797018963968"
  using fl_eq [of "281474976710656 / 2321102119892611" 56 "8738266804301598"] by simp

lemma fl_val_39: "fl (34784045503070953467751947364785 / 40564819207303340847894502572032) = 3861804820711851 / 4503599627370496"
  using fl_eq [of "34784045503070953467751947364785 / 40564819207303340847894502572032" 53 "7723609641423702"] by simp

lemma fl_val_40: "fl (- (20870427301842572080651168418871 / 40564819207303340847894502572032)) = - (4634165784854221 / 9007199254740992)"
  using fl_eq [of "- (20870427301842572080651168418871 / 40564819207303340847894502572032)" 53 "- 4634165784854221"] by simp

lemma fl_val_41: "fl (3861804820711851 / 562949953421312) = 3861804820711851 / 562949953421312"
  using fl_eq [of "3861804820711851 / 562949953421312" 50 "7723609641423702"] by simp

lemma fl_val_42: "fl (- (4634165784854221 / 1125899906842624)) = - (4634165784854221 / 1125899906842624)"
  using fl_eq [of "- (4634165784854221 / 1125899906842624)" 50 "- 4634165784854221"] by simp

lemma fl_val_43: "fl (14913536473273291646350371846201 / 316912650057057350374175801344) = 3311470314243013 / 70368744177664"
  using fl_eq [of "14913536473273291646350371846201 / 316912650057057350374175801344" 47 "6622940628486026"] by simp

lemma fl_val_44: "fl (21475492521513538117078221516841 / 1267650600228229401496703205376) = 2384258626254969 / 140737488355328"
  using fl_eq [of "21475492521513538117078221516841 / 1267650600228229401496703205376" 48 "4768517252509938"] by simp

lemma fl_val_45: "fl (9007199254740995 / 140737488355328) = 2251799813685249 / 35184372088832"
proof -
  have "rne (9007199254740995 / 2) = 4503599627370498" by (rule rne_half_up) simp_all
  then show ?thesis using fl_eq_scaled [of "9007199254740995 / 140737488355328" 46 "4503599627370498"] by simp
qed

lemma fl_val_46: "fl (sqrt (2251799813685249 / 35184372088832)) = 4503599627370497 / 562949953421312"
  using fl_sqrt_eq [of "2251799813685249 / 35184372088832" "4503599627370497" 49] by simp

lemma fl_val_47: "fl (23 / 1000) = 3314649325744685 / 144115188075855872"
  using fl_eq [of "23 / 1000" 58 "6629298651489370"] by simp

lemma fl_val_48: "fl (26388966039963260562073443152275 / 40564819207303340847894502572032) = 2929763769361855 / 4503599627370496"
  using fl_eq [of "26388966039963260562073443152275 / 40564819207303340847894502572032" 53 "5859527538723710"] by simp

lemma fl_val_49: "fl (2929763769361855 / 4503599627370496) = 2929763769361855 / 4503599627370496"
  using fl_eq [of "2929763769361855 / 4503599627370496" 53 "5859527538723710"] by simp

lemma fl_val_50: "fl (8583515744265384698393929041025 / 20282409603651670423947251286016) = 3811846724606387 / 9007199254740992"
  using fl_eq [of "8583515744265384698393929041025 / 20282409603651670423947251286016" 54 "7623693449212774"] by simp

lemma fl_val_51: "fl (3811846724606387 / 4503599627370496) = 3811846724606387 / 4503599627370496"
  using fl_eq [of "3811846724606387 / 4503599627370496" 53 "7623693449212774"] by simp

lemma fl_val_52: "fl (sqrt (3811846724606387 / 4503599627370496)) = 517913957147607 / 562949953421312"
  using fl_sqrt_eq [of "3811846724606387 / 4503599627370496" "8286623314361712" 53] by simp

lemma fl_val_53: "fl (23 / 500) = 3314649325744685 / 72057594037927936"
  using fl_eq [of "23 / 500" 57 "6629298651489370"] by simp

lemma fl_val_54: "fl (16573246628723425 / 18014398509481984) = 517913957147607 / 562949953421312"
proof -
  have "rne (16573246628723425 / 2) = 8286623314361712" by (rule rne_half_down) simp_all
  then show ?thesis using fl_eq_scaled [of "16573246628723425 / 18014398509481984" 53 "8286623314361712"] by simp
qed

lemma fl_val_55: "fl (562949953421312 / 517913957147607) = 4895216986272279 / 4503599627370496"
  using fl_eq [of "562949953421312 / 517913957147607" 52 "4895216986272279"] by simp

lemma fl_val_56: "fl (14341829369545252125827106517545 / 20282409603651670423947251286016) = 6369051672525773 / 9007199254740992"
  using fl_eq [of "14341829369545252125827106517545 / 20282409603651670423947251286016" 53 "6369051672525773"] by simp

lemma fl_val_57: "fl (- (3298620754995407889140272775211 / 5070602400912917605986812821504)) = - (5859527538723711 / 9007199254740992)"
  using fl_eq [of "- (3298620754995407889140272775211 / 5070602400912917605986812821504)" 53 "- 5859527538723711"] by simp

lemma fl_val_58: "fl (- (1 / 9007199254740992)) = - (1 / 9007199254740992)"
  using fl_eq [of "- (1 / 9007199254740992)" 105 "- 4503599627370496"] by simp

lemma fl_val_59: "fl (1 / 81129638414606681695789005144064) = 1 / 81129638414606681695789005144064"
  using fl_eq [of "1 / 81129638414606681695789005144064" 158 "4503599627370496"] by simp

lemma fl_val_60: "fl (1 / 40564819207303340847894502572032) = 1 / 40564819207303340847894502572032"
  using fl_eq [of "1 / 40564819207303340847894502572032" 157 "4503599627370496"] by simp

lemma fl_val_61: "fl (sqrt (1 / 40564819207303340847894502572032)) = 6369051672525773 / 40564819207303340847894502572032"
  using fl_sqrt_eq [of "1 / 40564819207303340847894502572032" "6369051672525773" 105] by simp

lemma fl_val_62: "sqrt (1) = 1"
  by (rule real_sqrt_unique) (simp_all add: power2_eq_square)

lemma fl_val_63: "fl (40) = 40"
  using fl_eq [of "40" 47 "5629499534213120"] by simp

lemma fl_val_64: "fl (18014398509481985 / 4503599627370496) = 4"
  using fl_eq [of "18014398509481985 / 4503599627370496" 50 "4503599627370496"] by simp

lemma fl_val_65: "fl (4) = 4"
  using fl_eq [of "4" 50 "4503599627370496"] by simp

lemma fl_val_66: "fl (16) = 16"
  using fl_eq [of "16" 48 "4503599627370496"] by simp

lemma fl_val_67: "sqrt (16) = 4"
  by (rule real_sqrt_unique) (simp_all add: power2_eq_square)

lemma fl_val_68: "fl (8) = 8"
  using fl_eq [of "8" 49 "4503599627370496"] by simp

lemma fl_val_69: "fl (64) = 64"
  using fl_eq [of "64" 46 "4503599627370496"] by simp

lemma fl_val_70: "sqrt (64) = 8"
  by (rule real_sqrt_unique) (simp_all add: power2_eq_square)

lemma fl_val_71: "fl (1 / 8) = 1 / 8"
  using fl_eq [of "1 / 8" 55 "4503599627370496"] by simp

lemma fl_val_72: "fl (- 2) = - 2"
  using fl_eq [of "- 2" 51 "- 4503599627370496"] by simp

lemma fl_val_73: "fl (6) = 6"
  using fl_eq [of "6" 50 "6755399441055744"] by simp

lemma fl_val_74: "fl (36) = 36"
  using fl_eq [of "36" 47 "5066549580791808"] by simp

lemma fl_val_75: "sqrt (36) = 6"
  by (rule real_sqrt_unique) (simp_all add: power2_eq_square)

lemma fl_val_76: "fl (1 / 6) = 6004799503160661 / 36028797018963968"
  using fl_eq [of "1 / 6" 55 "6004799503160661"] by simp

lemma fl_val_77: "fl (18014398509481983 / 18014398509481984) = 1"
proof -
  have "rne (18014398509481983 / 2) = 9007199254740992" by (rule rne_half_up) simp_all
  then show ?thesis using fl_eq_scaled [of "18014398509481983 / 18014398509481984" 53 "9007199254740992"] by simp
qed

lemma fl_val_78: "fl (1 / 4) = 1 / 4"
  using fl_eq [of "1 / 4" 54 "4503599627370496"] by simp

lemma fl_val_79: "sqrt (4) = 2"
  by (rule real_sqrt_unique) (simp_all add: power2_eq_square)

lemma fl_val_80: "fl (1 / 2) = 1 / 2"
  using fl_eq [of "1 / 2" 53 "4503599627370496"] by simp

lemma fl_val_81: "fl (2 / 25) = 5764607523034235 / 72057594037927936"
  using fl_eq [of "2 / 25" 56 "5764607523034235"] by simp

lemma fl_val_82: "fl (28823037615171175 / 18014398509481984) = 3602879701896397 / 2251799813685248"
  using fl_eq [of "28823037615171175 / 18014398509481984" 52 "7205759403792794"] by simp

lemma fl_val_83: "fl (- (3602879701896397 / 2251799813685248)) = - (3602879701896397 / 2251799813685248)"
  using fl_eq [of "- (3602879701896397 / 2251799813685248)" 52 "- 7205759403792794"] by simp

lemma fl_val_84: "fl (14411518807585587 / 2251799813685248) = 3602879701896397 / 562949953421312"
proof -
  have "rne (14411518807585587 / 2) = 7205759403792794" by (rule rne_half_up) simp_all
  then show ?thesis using fl_eq_scaled [of "14411518807585587 / 2251799813685248" 50 "7205759403792794"] by simp
qed

lemma fl_val_85: "fl (12980742146337070512478121581609 / 316912650057057350374175801344) = 1441151880758559 / 35184372088832"
  using fl_eq [of "12980742146337070512478121581609 / 316912650057057350374175801344" 47 "5764607523034236"] by simp

lemma fl_val_86: "fl (1441151880758559 / 35184372088832) = 1441151880758559 / 35184372088832"
  using fl_eq [of "1441151880758559 / 35184372088832" 47 "5764607523034236"] by simp

lemma fl_val_87: "fl (sqrt (1441151880758559 / 35184372088832)) = 3602879701896397 / 562949953421312"
  using fl_sqrt_eq [of "1441151880758559 / 35184372088832" "7205759403792794" 50] by simp

lemma fl_val_88: "fl (562949953421312 / 3602879701896397) = 5 / 32"
  using fl_eq [of "562949953421312 / 3602879701896397" 55 "5629499534213120"] by simp

lemma fl_val_89: "fl (18014398509481985 / 18014398509481984) = 1"
  using fl_eq [of "18014398509481985 / 18014398509481984" 52 "4503599627370496"] by simp

lemma fl_val_90: "fl (10808639105689191 / 2251799813685248) = 1351079888211149 / 281474976710656"
proof -
  have "rne (10808639105689191 / 2) = 5404319552844596" by (rule rne_half_up) simp_all
  then show ?thesis using fl_eq_scaled [of "10808639105689191 / 2251799813685248" 50 "5404319552844596"] by simp
qed

lemma fl_val_91: "fl (1825416864328650878587207900201 / 79228162514264337593543950336) = 1621295865853379 / 70368744177664"
  using fl_eq [of "1825416864328650878587207900201 / 79228162514264337593543950336" 48 "6485183463413516"] by simp

lemma fl_val_92: "fl (1621295865853379 / 70368744177664) = 1621295865853379 / 70368744177664"
  using fl_eq [of "1621295865853379 / 70368744177664" 48 "6485183463413516"] by simp

lemma fl_val_93: "fl (sqrt (1621295865853379 / 70368744177664)) = 1351079888211149 / 281474976710656"
  using fl_sqrt_eq [of "1621295865853379 / 70368744177664" "5404319552844596" 50] by simp

lemma fl_val_94: "fl (281474976710656 / 1351079888211149) = 3752999689475413 / 18014398509481984"
  using fl_eq [of "281474976710656 / 1351079888211149" 55 "7505999378950826"] by simp

lemma fl_val_95: "fl (5070602400912917906226787979537 / 5070602400912917605986812821504) = 1"
  using fl_eq [of "5070602400912917906226787979537 / 5070602400912917605986812821504" 52 "4503599627370496"] by simp

lemma fl_val_96: "fl (7205759403792795 / 2251799813685248) = 7205759403792795 / 2251799813685248"
  using fl_eq [of "7205759403792795 / 2251799813685248" 51 "7205759403792795"] by simp

lemma fl_val_97: "fl (51922968585348296461431293912025 / 5070602400912917605986812821504) = 5764607523034237 / 562949953421312"
  using fl_eq [of "51922968585348296461431293912025 / 5070602400912917605986812821504" 49 "5764607523034237"] by simp

lemma fl_val_98: "fl (5764607523034237 / 562949953421312) = 5764607523034237 / 562949953421312"
  using fl_eq [of "5764607523034237 / 562949953421312" 49 "5764607523034237"] by simp

lemma fl_val_99: "fl (sqrt (5764607523034237 / 562949953421312)) = 7205759403792795 / 2251799813685248"
  using fl_sqrt_eq [of "5764607523034237 / 562949953421312" "7205759403792795" 51] by simp

lemma fl_val_100: "fl (2251799813685248 / 7205759403792795) = 5629499534213119 / 18014398509481984"
  using fl_eq [of "2251799813685248 / 7205759403792795" 54 "5629499534213119"] by simp

lemma fl_val_101: "fl (40564819207303341523434446677605 / 40564819207303340847894502572032) = 1"
  using fl_eq [of "40564819207303341523434446677605 / 40564819207303340847894502572032" 52 "4503599627370496"] by simp

lemma fl_val_102: "fl (1801439850948199 / 1125899906842624) = 1801439850948199 / 1125899906842624"
  using fl_eq [of "1801439850948199 / 1125899906842624" 52 "7205759403792796"] by simp

lemma fl_val_103: "fl (3245185536584269429559381343601 / 1267650600228229401496703205376) = 5764607523034239 / 2251799813685248"
  using fl_eq [of "3245185536584269429559381343601 / 1267650600228229401496703205376" 51 "5764607523034239"] by simp

lemma fl_val_104: "fl (5764607523034239 / 2251799813685248) = 5764607523034239 / 2251799813685248"
  using fl_eq [of "5764607523034239 / 2251799813685248" 51 "5764607523034239"] by simp

lemma fl_val_105: "fl (sqrt (5764607523034239 / 2251799813685248)) = 1801439850948199 / 1125899906842624"
  using fl_sqrt_eq [of "5764607523034239 / 2251799813685248" "7205759403792796" 52] by simp

lemma fl_val_106: "fl (1125899906842624 / 1801439850948199) = 2814749767106559 / 4503599627370496"
  using fl_eq [of "1125899906842624 / 1801439850948199" 53 "5629499534213118"] by simp

lemma fl_val_107: "fl (5070602400912917493396822137241 / 5070602400912917605986812821504) = 1"
  using fl_eq [of "5070602400912917493396822137241 / 5070602400912917605986812821504" 53 "9007199254740992"] by simp

lemma fl_val_108: "fl (1 / 2251799813685248) = 1 / 2251799813685248"
  using fl_eq [of "1 / 2251799813685248" 103 "4503599627370496"] by simp

lemma fl_val_109: "fl (1 / 5070602400912917605986812821504) = 1 / 5070602400912917605986812821504"
  using fl_eq [of "1 / 5070602400912917605986812821504" 154 "4503599627370496"] by simp

lemma fl_val_110: "sqrt (1 / 5070602400912917605986812821504) = 1 / 2251799813685248"
  by (rule real_sqrt_unique) (simp_all add: power2_eq_square)

lemmas fl_vals = fl_val_1 fl_val_2 fl_val_3 fl_val_4 fl_val_5 fl_val_6 fl_val_7 fl_val_8 fl_val_9 fl_val_10 fl_val_11 fl_val_12 fl_val_13 fl_val_14 fl_val_15 fl_val_16 fl_val_17 fl_val_18 fl_val_19 fl_val_20 fl_val_21 fl_val_22 fl_val_23 fl_val_24 fl_val_25 fl_val_26 fl_val_27 fl_val_28 fl_val_29 fl_val_30 fl_val_31 fl_val_32 fl_val_33 fl_val_34 fl_val_35 fl_val_36 fl_val_37 fl_val_38 fl_val_39 fl_val_40 fl_val_41 fl_val_42 fl_val_43 fl_val_44 fl_val_45 fl_val_46 fl_val_47 fl_val_48 fl_val_49 fl_val_50 fl_val_51 fl_val_52 fl_val_53 fl_val_54 fl_val_55 fl_val_56 fl_val_57 fl_val_58 fl_val_59 fl_val_60 fl_val_61 fl_val_62 fl_val_63 fl_val_64 fl_val_65 fl_val_66 fl_val_67 fl_val_68 fl_val_69 fl_val_70 fl_val_71 fl_val_72 fl_val_73 fl_val_74 fl_val_75 fl_val_76 fl_val_77 fl_val_78 fl_val_79 fl_val_80 fl_val_81 fl_val_82 fl_val_83 fl_val_84 fl_val_85 fl_val_86 fl_val_87 fl_val_88 fl_val_89 fl_val_90 fl_val_91 fl_val_92 fl_val_93 fl_val_94 fl_val_95 fl_val_96 fl_val_97 fl_val_98 fl_val_99 fl_val_100 fl_val_101 fl_val_102 fl_val_103 fl_val_104 fl_val_105 fl_val_106 fl_val_107 fl_val_108 fl_val_109 fl_val_110

lemma overshoot_step_1:
  assumes v: "currentSpeed h = \<lparr>v2x = 0, v2y = 0\<rparr>"
    and k: "pressed h ''ArrowUp'' = False" "pressed h ''KeyW'' = False" "pressed h ''ArrowDown'' = True" "pressed h ''KeyS'' = False" "pressed h ''ArrowLeft'' = False" "pressed h ''KeyA'' = False" "pressed h ''ArrowRight'' = True" "pressed h ''KeyD'' = False"
    and p: "acceleration h = 40" "friction h = 20" "maxSpeed h = 8"
  shows "currentSpeed (Hole_handleInput_r fl (3602879701896397 / 36028797018963968) h) = \<lparr>v2x = 1592262918131443 / 562949953421312, v2y = 1592262918131443 / 562949953421312\<rparr>"
proof -
  have inp: "Hole_input_r fl h = \<lparr>v2x = 1592262918131443 / 2251799813685248, v2y = 1592262918131443 / 2251799813685248\<rparr>"
    by (simp add: Hole_input_r_def Let_def Vector2_length_r_def Vector2_normalize_r_def Vector2_divideScalar_r_def Vector2_multiplyScalar_r_def k fl_vals)
  have int: "Hole_integrate_r fl (3602879701896397 / 36028797018963968) h = \<lparr>v2x = 1592262918131443 / 562949953421312, v2y = 1592262918131443 / 562949953421312\<rparr>"
    by (simp add: Hole_integrate_r_def Let_def Vector2_length_r_def Vector2_normalize_r_def Vector2_divideScalar_r_def Vector2_multiplyScalar_r_def Vector2_addScaledVector_r_def Vector2_negate_def inp v p fl_vals)
  have cap: "Hole_capSpeed_r fl h (\<lparr>v2x = 1592262918131443 / 562949953421312, v2y = 1592262918131443 / 562949953421312\<rparr>) = \<lparr>v2x = 1592262918131443 / 562949953421312, v2y = 1592262918131443 / 562949953421312\<rparr>"
    by (simp add: Hole_capSpeed_r_def Vector2_setLength_r_def Vector2_length_r_def Vector2_normalize_r_def Vector2_divideScalar_r_def Vector2_multiplyScalar_r_def p fl_vals)
  show ?thesis by (simp add: Hole_handleInput_r_def Let_def int cap)
qed

lemma overshoot_step_2:
  assumes v: "currentSpeed h = \<lparr>v2x = 1592262918131443 / 562949953421312, v2y = 1592262918131443 / 562949953421312\<rparr>"
    and k: "pressed h ''ArrowUp'' = False" "pressed h ''KeyW'' = False" "pressed h ''ArrowDown'' = False" "pressed h ''KeyS'' = False" "pressed h ''ArrowLeft'' = False" "pressed h ''KeyA'' = False" "pressed h ''ArrowRight'' = False" "pressed h ''KeyD'' = False"
    and p: "acceleration h = 40" "friction h = 20" "maxSpeed h = 8"
  shows "currentSpeed (Hole_handleInput_r fl (3602879701896397 / 36028797018963968) h) = \<lparr>v2x = 6369051672525771 / 4503599627370496, v2y = 6369051672525771 / 4503599627370496\<rparr>"
proof -
  have inp: "Hole_input_r fl h = \<lparr>v2x = 0, v2y = 0\<rparr>"
    by (simp add: Hole_input_r_def Let_def Vector2_length_r_def Vector2_normalize_r_def Vector2_divideScalar_r_def Vector2_multiplyScalar_r_def k fl_vals)
  have int: "Hole_integrate_r fl (3602879701896397 / 36028797018963968) h = \<lparr>v2x = 6369051672525771 / 4503599627370496, v2y = 6369051672525771 / 4503599627370496\<rparr>"
    by (simp add: Hole_integrate_r_def Let_def Vector2_length_r_def Vector2_normalize_r_def Vector2_divideScalar_r_def Vector2_multiplyScalar_r_def Vector2_addScaledVector_r_def Vector2_negate_def inp v p fl_vals)
  have cap: "Hole_capSpeed_r fl h (\<lparr>v2x = 6369051672525771 / 4503599627370496, v2y = 6369051672525771 / 4503599627370496\<rparr>) = \<lparr>v2x = 6369051672525771 / 4503599627370496, v2y = 6369051672525771 / 4503599627370496\<rparr>"
    by (simp add: Hole_capSpeed_r_def Vector2_setLength_r_def Vector2_length_r_def Vector2_normalize_r_def Vector2_divideScalar_r_def Vector2_multiplyScalar_r_def p fl_vals)
  show ?thesis by (simp add: Hole_handleInput_r_def Let_def int cap)
qed

lemma overshoot_step_3:
  assumes v: "currentSpeed h = \<lparr>v2x = 6369051672525771 / 4503599627370496, v2y = 6369051672525771 / 4503599627370496\<rparr>"
    and k: "pressed h ''ArrowUp'' = True" "pressed h ''KeyW'' = False" "pressed h ''ArrowDown'' = False" "pressed h ''KeyS'' = False" "pressed h ''ArrowLeft'' = False" "pressed h ''KeyA'' = False" "pressed h ''ArrowRight'' = True" "pressed h ''KeyD'' = False"
    and p: "acceleration h = 40" "friction h = 20" "maxSpeed h = 8"
  shows "currentSpeed (Hole_handleInput_r fl (3602879701896397 / 36028797018963968) h) = \<lparr>v2x = 4776788754394329 / 1125899906842624, v2y = - (6369051672525773 / 4503599627370496)\<rparr>"
proof -
  have inp: "Hole_input_r fl h = \<lparr>v2x = 1592262918131443 / 2251799813685248, v2y = - (1592262918131443 / 2251799813685248)\<rparr>"
    by (simp add: Hole_input_r_def Let_def Vector2_length_r_def Vector2_normalize_r_def Vector2_divideScalar_r_def Vector2_multiplyScalar_r_def k fl_vals)
  have int: "Hole_integrate_r fl (3602879701896397 / 36028797018963968) h = \<lparr>v2x = 4776788754394329 / 1125899906842624, v2y = - (6369051672525773 / 4503599627370496)\<rparr>"
    by (simp add: Hole_integrate_r_def Let_def Vector2_length_r_def Vector2_normalize_r_def Vector2_divideScalar_r_def Vector2_multiplyScalar_r_def Vector2_addScaledVector_r_def Vector2_negate_def inp v p fl_vals)
  have cap: "Hole_capSpeed_r fl h (\<lparr>v2x = 4776788754394329 / 1125899906842624, v2y = - (6369051672525773 / 4503599627370496)\<rparr>) = \<lparr>v2x = 4776788754394329 / 1125899906842624, v2y = - (6369051672525773 / 4503599627370496)\<rparr>"
    by (simp add: Hole_capSpeed_r_def Vector2_setLength_r_def Vector2_length_r_def Vector2_normalize_r_def Vector2_divideScalar_r_def Vector2_multiplyScalar_r_def p fl_vals)
  show ?thesis by (simp add: Hole_handleInput_r_def Let_def int cap)
qed

lemma overshoot_step_4:
  assumes v: "currentSpeed h = \<lparr>v2x = 4776788754394329 / 1125899906842624, v2y = - (6369051672525773 / 4503599627370496)\<rparr>"
    and k: "pressed h ''ArrowUp'' = True" "pressed h ''KeyW'' = False" "pressed h ''ArrowDown'' = False" "pressed h ''KeyS'' = False" "pressed h ''ArrowLeft'' = False" "pressed h ''KeyA'' = False" "pressed h ''ArrowRight'' = True" "pressed h ''KeyD'' = False"
    and p: "acceleration h = 40" "friction h = 20" "maxSpeed h = 8"
  shows "currentSpeed (Hole_handleInput_r fl (3602879701896397 / 36028797018963968) h) = \<lparr>v2x = 3861804820711851 / 562949953421312, v2y = - (4634165784854221 / 1125899906842624)\<rparr>"
proof -
  have inp: "Hole_input_r fl h = \<lparr>v2x = 1592262918131443 / 2251799813685248, v2y = - (1592262918131443 / 2251799813685248)\<rparr>"
    by (simp add: Hole_input_r_def Let_def Vector2_length_r_def Vector2_normalize_r_def Vector2_divideScalar_r_def Vector2_multiplyScalar_r_def k fl_vals)
  have int: "Hole_integrate_r fl (3602879701896397 / 36028797018963968) h = \<lparr>v2x = 7961314590657215 / 1125899906842624, v2y = - (4776788754394329 / 1125899906842624)\<rparr>"
    by (simp add: Hole_integrate_r_def Let_def Vector2_length_r_def Vector2_normalize_r_def Vector2_divideScalar_r_def Vector2_multiplyScalar_r_def Vector2_addScaledVector_r_def Vector2_negate_def inp v p fl_vals)
  have cap: "Hole_capSpeed_r fl h (\<lparr>v2x = 7961314590657215 / 1125899906842624, v2y = - (4776788754394329 / 1125899906842624)\<rparr>) = \<lparr>v2x = 3861804820711851 / 562949953421312, v2y = - (4634165784854221 / 1125899906842624)\<rparr>"
    by (simp add: Hole_capSpeed_r_def Vector2_setLength_r_def Vector2_length_r_def Vector2_normalize_r_def Vector2_divideScalar_r_def Vector2_multiplyScalar_r_def p fl_vals)
  show ?thesis by (simp add: Hole_handleInput_r_def Let_def int cap)
qed
















lemma frames_overshoot_inputs:
  shows "currentSpeed (Hole_inputs_r fl frames_overshoot Hole_start) = \<lparr>v2x = 3861804820711851 / 562949953421312, v2y = - (4634165784854221 / 1125899906842624)\<rparr>"
    and "maxSpeed (Hole_inputs_r fl frames_overshoot Hole_start) = 8"
    and "Vector2_length_r fl (currentSpeed (Hole_inputs_r fl frames_overshoot Hole_start)) = 4503599627370497 / 562949953421312"
proof -
  define g1 where "g1 = fold Hole_onKey [KeyDown ''ArrowDown'', KeyDown ''ArrowRight''] Hole_start"
  define h1 where "h1 = Hole_handleInput_r fl (fl (1 / 10)) g1"
  have k1: "pressed g1 ''ArrowUp'' = False" "pressed g1 ''KeyW'' = False" "pressed g1 ''ArrowDown'' = True" "pressed g1 ''KeyS'' = False" "pressed g1 ''ArrowLeft'' = False" "pressed g1 ''KeyA'' = False" "pressed g1 ''ArrowRight'' = True" "pressed g1 ''KeyD'' = False"
    by (simp_all add: g1_def pressed_def Hole_start_def)
  have p1: "acceleration g1 = 40" "friction g1 = 20" "maxSpeed g1 = 8"
    by (simp_all add: g1_def Hole_start_def)
  have v1: "currentSpeed g1 = \<lparr>v2x = 0, v2y = 0\<rparr>"
    by (simp add: g1_def Hole_start_def)
  have s1: "currentSpeed h1 = \<lparr>v2x = 1592262918131443 / 562949953421312, v2y = 1592262918131443 / 562949953421312\<rparr>"
    unfolding h1_def fl_val_1 by (rule overshoot_step_1 [OF v1 k1 p1])
  define g2 where "g2 = fold Hole_onKey [KeyUp ''ArrowDown'', KeyUp ''ArrowRight''] h1"
  define h2 where "h2 = Hole_handleInput_r fl (fl (1 / 10)) g2"
  have k2: "pressed g2 ''ArrowUp'' = False" "pressed g2 ''KeyW'' = False" "pressed g2 ''ArrowDown'' = False" "pressed g2 ''KeyS'' = False" "pressed g2 ''ArrowLeft'' = False" "pressed g2 ''KeyA'' = False" "pressed g2 ''ArrowRight'' = False" "pressed g2 ''KeyD'' = False"
    by (simp_all add: g2_def h1_def g1_def pressed_def Hole_start_def)
  have p2: "acceleration g2 = 40" "friction g2 = 20" "maxSpeed g2 = 8"
    by (simp_all add: g2_def h1_def g1_def Hole_start_def)
  have v2: "currentSpeed g2 = \<lparr>v2x = 1592262918131443 / 562949953421312, v2y = 1592262918131443 / 562949953421312\<rparr>"
    by (simp add: g2_def s1)
  have s2: "currentSpeed h2 = \<lparr>v2x = 6369051672525771 / 4503599627370496, v2y = 6369051672525771 / 4503599627370496\<rparr>"
    unfolding h2_def fl_val_1 by (rule overshoot_step_2 [OF v2 k2 p2])
  define g3 where "g3 = fold Hole_onKey [KeyDown ''ArrowUp'', KeyDown ''ArrowRight''] h2"
  define h3 where "h3 = Hole_handleInput_r fl (fl (1 / 10)) g3"
  have k3: "pressed g3 ''ArrowUp'' = True" "pressed g3 ''KeyW'' = False" "pressed g3 ''ArrowDown'' = False" "pressed g3 ''KeyS'' = False" "pressed g3 ''ArrowLeft'' = False" "pressed g3 ''KeyA'' = False" "pressed g3 ''ArrowRight'' = True" "pressed g3 ''KeyD'' = False"
    by (simp_all add: g3_def h2_def g2_def h1_def g1_def pressed_def Hole_start_def)
  have p3: "acceleration g3 = 40" "friction g3 = 20" "maxSpeed g3 = 8"
    by (simp_all add: g3_def h2_def g2_def h1_def g1_def Hole_start_def)
  have v3: "currentSpeed g3 = \<lparr>v2x = 6369051672525771 / 4503599627370496, v2y = 6369051672525771 / 4503599627370496\<rparr>"
    by (simp add: g3_def s2)
  have s3: "currentSpeed h3 = \<lparr>v2x = 4776788754394329 / 1125899906842624, v2y = - (6369051672525773 / 4503599627370496)\<rparr>"
    unfolding h3_def fl_val_1 by (rule overshoot_step_3 [OF v3 k3 p3])
  define g4 where "g4 = fold Hole_onKey [] h3"
  define h4 where "h4 = Hole_handleInput_r fl (fl (1 / 10)) g4"
  have k4: "pressed g4 ''ArrowUp'' = True" "pressed g4 ''KeyW'' = False" "pressed g4 ''ArrowDown'' = False" "pressed g4 ''KeyS'' = False" "pressed g4 ''ArrowLeft'' = False" "pressed g4 ''KeyA'' = False" "pressed g4 ''ArrowRight'' = True" "pressed g4 ''KeyD'' = False"
    by (simp_all add: g4_def h3_def g3_def h2_def g2_def h1_def g1_def pressed_def Hole_start_def)
  have p4: "acceleration g4 = 40" "friction g4 = 20" "maxSpeed g4 = 8"
    by (simp_all add: g4_def h3_def g3_def h2_def g2_def h1_def g1_def Hole_start_def)
  have v4: "currentSpeed g4 = \<lparr>v2x = 4776788754394329 / 1125899906842624, v2y = - (6369051672525773 / 4503599627370496)\<rparr>"
    by (simp add: g4_def s3)
  have s4: "currentSpeed h4 = \<lparr>v2x = 3861804820711851 / 562949953421312, v2y = - (4634165784854221 / 1125899906842624)\<rparr>"
    unfolding h4_def fl_val_1 by (rule overshoot_step_4 [OF v4 k4 p4])
  have r4: "Hole_inputs_r fl frames_overshoot Hole_start = h4"
    by (simp add: frames_overshoot_def h4_def g4_def h3_def g3_def h2_def g2_def h1_def g1_def)
  show "currentSpeed (Hole_inputs_r fl frames_overshoot Hole_start) = \<lparr>v2x = 3861804820711851 / 562949953421312, v2y = - (4634165784854221 / 1125899906842624)\<rparr>"
    unfolding r4 by (rule s4)
  show "maxSpeed (Hole_inputs_r fl frames_overshoot Hole_start) = 8" unfolding r4 by (simp add: h4_def p4)
  show "Vector2_length_r fl (currentSpeed (Hole_inputs_r fl frames_overshoot Hole_start)) = 4503599627370497 / 562949953421312"
    unfolding r4 by (simp add: s4 Vector2_length_r_def fl_vals)
qed






section \<open>The claims\<close>

text \<open>
  Claim C1. For an object whose mesh is in the scene and whose body is in the physics
  world, \<open>checkSwallow\<close> removes both exactly when the horizontal distance to the hole
  plus the object radius 0.5 is strictly below the hole's radius and the object's height
  is below \<open>-5\<close>; otherwise it changes nothing. In particular nothing is removed when
  distance plus object radius equals the hole's radius.
\<close>

theorem checkSwallow_decision:
  assumes "obj_mesh ob \<in> set (scene e)" and "obj_body ob \<in> set (physicsWorld e)"
    and "distinct (scene e)" and "distinct (physicsWorld e)"
  shows "let dx = v3x (obj_mesh_position ob) - v3x (mesh_position h);
             dz = v3z (obj_mesh_position ob) - v3z (mesh_position h);
             dist = sqrt (dx * dx + dz * dz);
             e' = Hole_checkSwallow h ob e
         in ((obj_body ob \<notin> set (physicsWorld e') \<and> obj_mesh ob \<notin> set (scene e')) \<longleftrightarrow>
               (dist + 0.5 < radius h \<and> v3y (obj_mesh_position ob) < - 5)) \<and>
            e' = (if dist + 0.5 < radius h \<and> v3y (obj_mesh_position ob) < - 5
                  then Scene_remove (obj_mesh ob) (CWorld_removeBody (obj_body ob) e)
                  else e) \<and>
            (dist + 0.5 = radius h \<longrightarrow> e' = e)"
  using assms by (simp add: Hole_checkSwallow_eq Let_def)

theorem checkSwallow_decision_witness:
  "Hole_checkSwallow Hole_start (Obj_at 0 (- 6) 0) Env_one = Env_start \<and>
   Hole_checkSwallow Hole_start (Obj_at 1 (- 6) 0) Env_one = Env_one \<and>
   Hole_checkSwallow Hole_start (Obj_at 0 (- 2) 0) Env_one = Env_one"
proof -
  have m: "obj_mesh (Obj_at px py pz) \<in> set (scene Env_one)" for px py pz
    by (simp add: Obj_at_def Env_one_def Env_start_def)
  have b: "obj_body (Obj_at px py pz) \<in> set (physicsWorld Env_one)" for px py pz
    by (simp add: Obj_at_def Env_one_def Env_start_def)
  have d1: "distinct (scene Env_one)" by (simp add: Env_one_def Env_start_def)
  have d2: "distinct (physicsWorld Env_one)" by (simp add: Env_one_def Env_start_def)
  have r: "Scene_remove (ObjMesh 0) (CWorld_removeBody (ObjBody 0) Env_one) = Env_start"
    by (simp add: Scene_remove_def CWorld_removeBody_def Env_one_def Env_start_def)
  show ?thesis
    using checkSwallow_decision [OF m b d1 d2, of 0 "- 6" 0 Hole_start]
      checkSwallow_decision [OF m b d1 d2, of 1 "- 6" 0 Hole_start]
      checkSwallow_decision [OF m b d1 d2, of 0 "- 2" 0 Hole_start] r
    by (simp add: Let_def Obj_at_def Hole_start_def)
qed

text \<open>
  Claim C2. When the four ground boxes have the half extents that \<open>setupPhysics\<close> gave
  them, \<open>Hole.update\<close> returns, and afterwards the \<open>+X\<close> box is centred at
  \<open>x + (radius + halfExtent)\<close>, the \<open>-X\<close> box at \<open>x - (radius + halfExtent)\<close>, the \<open>-Z\<close>
  and \<open>+Z\<close> boxes likewise along \<open>z\<close>, where \<open>halfExtent\<close> is half of the full extent 100
  of a box and \<open>x\<close>, \<open>z\<close>, \<open>radius\<close> are the hole's values after the update. The inner
  edges are therefore at \<open>x \<plusminus> radius\<close> and \<open>z \<plusminus> radius\<close>. The same placement holds at the end
  of every frame of every session.
\<close>

theorem update_places_ring:
  assumes "map gb_halfExtents (groundBodies h) = replicate 4 \<lparr>v3x = 50, v3y = 1 / 2, v3z = 50\<rparr>"
  shows "(\<exists>h'. Hole_update dt h = Inr h' \<and> spec_ring_placed h') \<and>
         (\<exists>w. session ps fs = Inr w \<and> spec_ring_placed (hole w))"
proof
  let ?k = "Hole_handleInput dt h"
  let ?h' = "?k\<lparr>groundBodies := ring ?k\<rparr>"
  from assms have "length (map gb_halfExtents (groundBodies h)) = 4" by simp
  then have len: "length (groundBodies h) = 4" by simp
  have upd: "Hole_update dt h = Inr ?h'" using len by (rule Hole_update_ring)
  have "map gb_halfExtents (groundBodies ?h') = replicate 4 \<lparr>v3x = 50, v3y = 1 / 2, v3z = 50\<rparr>"
    using halfExtents_ring [of ?k] len assms by simp
  moreover have "ring ?h' = groundBodies ?h'" by simp
  ultimately have "spec_ring_placed ?h'" by (rule spec_ring_placedI)
  with upd show "\<exists>h'. Hole_update dt h = Inr h' \<and> spec_ring_placed h'" by blast
next
  obtain w where w: "session ps fs = Inr w" "World_ok w" using session_ok by blast
  then have "spec_ring_placed (hole w)"
    by (simp add: World_ok_def Hole_ok_def spec_ring_placedI)
  with w(1) show "\<exists>w. session ps fs = Inr w \<and> spec_ring_placed (hole w)" by blast
qed

theorem update_places_ring_witness:
  "(case Hole_update 0.1 Hole_right of
      Inl err \<Rightarrow> False
    | Inr h' \<Rightarrow>
        spec_ring_placed h' \<and>
        mesh_position h' = \<lparr>v3x = 0.4, v3y = 0, v3z = 0\<rparr> \<and>
        map gb_position (groundBodies h') =
          [\<lparr>v3x = 51.9, v3y = - 0.5, v3z = 0\<rparr>, \<lparr>v3x = - 51.1, v3y = - 0.5, v3z = 0\<rparr>,
           \<lparr>v3x = 0.4, v3y = - 0.5, v3z = - 51.5\<rparr>, \<lparr>v3x = 0.4, v3y = - 0.5, v3z = 51.5\<rparr>])"
proof -
  have he: "map gb_halfExtents (groundBodies Hole_right) =
      replicate 4 \<lparr>v3x = 50, v3y = 1 / 2, v3z = 50\<rparr>"
    by (simp add: Hole_right_def Hole_start_def numeral_eq_Suc)
  have len: "length (groundBodies Hole_right) = 4"
    by (simp add: Hole_right_def Hole_start_def)
  let ?h' = "(Hole_handleInput 0.1 Hole_right)\<lparr>groundBodies := ring (Hole_handleInput 0.1 Hole_right)\<rparr>"
  have upd: "Hole_update 0.1 Hole_right = Inr ?h'"
    using len by (rule Hole_update_ring)
  have a: "spec_ring_placed ?h'"
    using update_places_ring [OF he, of "0.1"] upd by simp
  have b: "mesh_position ?h' = \<lparr>v3x = 0.4, v3y = 0, v3z = 0\<rparr>"
    by (simp add: Hole_handleInput_right)
  have c: "map gb_position (groundBodies ?h') =
          [\<lparr>v3x = 51.9, v3y = - 0.5, v3z = 0\<rparr>, \<lparr>v3x = - 51.1, v3y = - 0.5, v3z = 0\<rparr>,
           \<lparr>v3x = 0.4, v3y = - 0.5, v3z = - 51.5\<rparr>, \<lparr>v3x = 0.4, v3y = - 0.5, v3z = 51.5\<rparr>]"
    by (simp add: Hole_handleInput_right ring_def Let_def) (simp add: Hole_right_def Hole_start_def)
  show ?thesis unfolding upd sum.case by (intro conjI a b c)
qed

text \<open>
  Claim C3. Let \<open>w\<close> be the world at the start of a frame: after the constructor and
  any number of earlier frames. The frame, with key events \<open>evs\<close>, time step \<open>dt\<close> and
  solver \<open>eng\<close>, completes, and its result is the same for every solver when
  \<^item> the solver is handed, instead of the world in which the step runs, that world with
    the ring placed again from the position and radius the hole has in it, or
  \<^item> the solver is handed the world \<open>wk\<close> of the frame start with the key events
    delivered, whose ring is the placement for its own hole \<open>h\<close>.
  So the physics step of every frame runs before the hole moves in that frame, and the
  ring it reads is the one derived from the hole's state at the moment of the step: a
  step that ran on any other ring would give a different result for some solver.
\<close>

theorem step_sees_current_ring:
  "\<exists>w. session ps fs = Inr w \<and>
       (\<exists>w'. World_frame (evs, dt, eng) w = Inr w') \<and>
       World_frame (evs, dt, eng) w =
         World_frame (evs, dt, \<lambda>d ws. eng d (World_placeRing ws)) w \<and>
       (let h = fold Hole_onKey evs (hole w); wk = w\<lparr>hole := h\<rparr>;
            p = mesh_position h; r = radius h
        in World_frame (evs, dt, eng) w = World_frame (evs, dt, \<lambda>d ws. eng d wk) w \<and>
           groundBodies h =
             [\<lparr>gb_position = \<lparr>v3x = v3x p + r + 50, v3y = - 1 / 2, v3z = v3z p\<rparr>,
               gb_halfExtents = \<lparr>v3x = 50, v3y = 1 / 2, v3z = 50\<rparr>\<rparr>,
              \<lparr>gb_position = \<lparr>v3x = v3x p - r - 50, v3y = - 1 / 2, v3z = v3z p\<rparr>,
               gb_halfExtents = \<lparr>v3x = 50, v3y = 1 / 2, v3z = 50\<rparr>\<rparr>,
              \<lparr>gb_position = \<lparr>v3x = v3x p, v3y = - 1 / 2, v3z = v3z p - r - 50\<rparr>,
               gb_halfExtents = \<lparr>v3x = 50, v3y = 1 / 2, v3z = 50\<rparr>\<rparr>,
              \<lparr>gb_position = \<lparr>v3x = v3x p, v3y = - 1 / 2, v3z = v3z p + r + 50\<rparr>,
               gb_halfExtents = \<lparr>v3x = 50, v3y = 1 / 2, v3z = 50\<rparr>\<rparr>])"
proof -
  obtain w where w: "session ps fs = Inr w" "World_ok w" using session_ok by blast
  let ?h = "fold Hole_onKey evs (hole w)"
  let ?wk = "w\<lparr>hole := ?h\<rparr>"
  have ok: "Hole_ok ?h" using w(2) by (simp add: World_ok_def Hole_ok_fold_onKey)
  then have len: "length (groundBodies ?h) = 4" by (rule Hole_ok_length)
  then obtain a b c d where g: "groundBodies ?h = [a, b, c, d]" by (rule length4E)
  have he: "map gb_halfExtents (groundBodies ?h) = replicate 4 \<lparr>v3x = 50, v3y = 1 / 2, v3z = 50\<rparr>"
    and r: "ring ?h = groundBodies ?h"
    using ok by (simp_all add: Hole_ok_def)
  from he g have hes: "gb_halfExtents a = \<lparr>v3x = 50, v3y = 1 / 2, v3z = 50\<rparr>"
    "gb_halfExtents b = \<lparr>v3x = 50, v3y = 1 / 2, v3z = 50\<rparr>"
    "gb_halfExtents c = \<lparr>v3x = 50, v3y = 1 / 2, v3z = 50\<rparr>"
    "gb_halfExtents d = \<lparr>v3x = 50, v3y = 1 / 2, v3z = 50\<rparr>"
    by (simp_all add: numeral_eq_Suc)
  have expl: "groundBodies ?h =
      [\<lparr>gb_position = \<lparr>v3x = v3x (mesh_position ?h) + radius ?h + 50, v3y = - 1 / 2, v3z = v3z (mesh_position ?h)\<rparr>,
        gb_halfExtents = \<lparr>v3x = 50, v3y = 1 / 2, v3z = 50\<rparr>\<rparr>,
       \<lparr>gb_position = \<lparr>v3x = v3x (mesh_position ?h) - radius ?h - 50, v3y = - 1 / 2, v3z = v3z (mesh_position ?h)\<rparr>,
        gb_halfExtents = \<lparr>v3x = 50, v3y = 1 / 2, v3z = 50\<rparr>\<rparr>,
       \<lparr>gb_position = \<lparr>v3x = v3x (mesh_position ?h), v3y = - 1 / 2, v3z = v3z (mesh_position ?h) - radius ?h - 50\<rparr>,
        gb_halfExtents = \<lparr>v3x = 50, v3y = 1 / 2, v3z = 50\<rparr>\<rparr>,
       \<lparr>gb_position = \<lparr>v3x = v3x (mesh_position ?h), v3y = - 1 / 2, v3z = v3z (mesh_position ?h) + radius ?h + 50\<rparr>,
        gb_halfExtents = \<lparr>v3x = 50, v3y = 1 / 2, v3z = 50\<rparr>\<rparr>]"
  proof -
    have "ring ?h = [\<lparr>gb_position = \<lparr>v3x = v3x (mesh_position ?h) + radius ?h + 50, v3y = - 1 / 2, v3z = v3z (mesh_position ?h)\<rparr>,
        gb_halfExtents = \<lparr>v3x = 50, v3y = 1 / 2, v3z = 50\<rparr>\<rparr>,
       \<lparr>gb_position = \<lparr>v3x = v3x (mesh_position ?h) - radius ?h - 50, v3y = - 1 / 2, v3z = v3z (mesh_position ?h)\<rparr>,
        gb_halfExtents = \<lparr>v3x = 50, v3y = 1 / 2, v3z = 50\<rparr>\<rparr>,
       \<lparr>gb_position = \<lparr>v3x = v3x (mesh_position ?h), v3y = - 1 / 2, v3z = v3z (mesh_position ?h) - radius ?h - 50\<rparr>,
        gb_halfExtents = \<lparr>v3x = 50, v3y = 1 / 2, v3z = 50\<rparr>\<rparr>,
       \<lparr>gb_position = \<lparr>v3x = v3x (mesh_position ?h), v3y = - 1 / 2, v3z = v3z (mesh_position ?h) + radius ?h + 50\<rparr>,
        gb_halfExtents = \<lparr>v3x = 50, v3y = 1 / 2, v3z = 50\<rparr>\<rparr>]"
      unfolding ring_def Let_def g using hes by simp
    with r show ?thesis by simp
  qed
  have fixp: "Hole_updatePhysicsHolePos ?h = Inr ?h"
    using Hole_updatePhysicsHolePos_ring [OF len] r by simp
  have place: "World_placeRing ?wk = ?wk"
    by (simp add: World_placeRing_def fixp)
  have ret: "\<exists>w'. World_frame (evs, dt, eng) w = Inr w'"
    using World_ok_frame [OF w(2), of "(evs, dt, eng)"] by blast
  have a: "World_frame (evs, dt, eng) w =
      World_frame (evs, dt, \<lambda>d ws. eng d (World_placeRing ws)) w"
    unfolding World_frame_def prod.case
    by (rule World_update_cong) (simp add: World_step_def place)
  have b: "World_frame (evs, dt, eng) w = World_frame (evs, dt, \<lambda>d ws. eng d ?wk) w"
    unfolding World_frame_def prod.case
    by (rule World_update_cong) (simp add: World_step_def)
  show ?thesis
    unfolding Let_def by (rule exI [of _ w]) (intro conjI w(1) ret a b expl)
qed

text \<open>
  Claim C4 as the specification states it does not hold for the program as it runs. The
  cap of \<open>handleInput\<close> compares the computed length with \<open>maxSpeed\<close> and, when it is
  larger, rescales the velocity with three rounded multiplications per component; the
  rescaled vector can be longer than \<open>maxSpeed\<close>. In the run \<open>frames_overshoot\<close> the velocity
  after the fourth update is \<open>(6.8599434057003545, -4.1159660434202126)\<close>, \<open>maxSpeed\<close> is 8,
  and the length of the velocity is above 8 both as a real number and as \<open>length()\<close>
  computes it, which gives \<open>8.000000000000002\<close>.
\<close>

theorem currentSpeed_exceeds_maxSpeed:
  "\<exists>h'. Hole_frames_r fl frames_overshoot Hole_start = Inr h' \<and>
        currentSpeed h' =
          \<lparr>v2x = 3861804820711851 / 562949953421312,
           v2y = - (4634165784854221 / 1125899906842624)\<rparr> \<and>
        maxSpeed h' = 8 \<and>
        \<not> Vector2_length (currentSpeed h') \<le> maxSpeed h' \<and>
        \<not> Vector2_length_r fl (currentSpeed h') \<le> maxSpeed h'"
proof -
  obtain h' where h': "Hole_frames_r fl frames_overshoot Hole_start = Inr h'"
    "currentSpeed h' = currentSpeed (Hole_inputs_r fl frames_overshoot Hole_start)"
    "maxSpeed h' = maxSpeed (Hole_inputs_r fl frames_overshoot Hole_start)"
    using Hole_frames_r_start by blast
  note v = h'(2) [unfolded frames_overshoot_inputs(1)]
  note m = h'(3) [unfolded frames_overshoot_inputs(2)]
  have "Vector2_length_r fl (currentSpeed h') = 4503599627370497 / 562949953421312"
    unfolding h'(2) by (rule frames_overshoot_inputs(3))
  then have l: "\<not> Vector2_length_r fl (currentSpeed h') \<le> maxSpeed h'"
    by (simp add: m)
  have "(8::real) < sqrt (3861804820711851 / 562949953421312 * (3861804820711851 / 562949953421312) +
      - (4634165784854221 / 1125899906842624) * - (4634165784854221 / 1125899906842624))"
    by (rule real_less_rsqrt) simp
  then have e: "\<not> Vector2_length (currentSpeed h') \<le> maxSpeed h'"
    by (simp add: v m Vector2_length_def)
  show ?thesis by (rule exI [of _ h']) (intro conjI h'(1) v m e l)
qed

text \<open>
  Claim C4, with the bound that double arithmetic gives. For any hole with a
  non-negative \<open>maxSpeed\<close>, any keys held and any time step, after the velocity
  integration of \<open>handleInput\<close> the length of \<open>currentSpeed\<close> is at most
  \<open>maxSpeed * (1 + 2^-50)\<close>, as a real number and as \<open>length()\<close> computes it. Every run of
  frames from the constructed hole, whatever its key events and time steps, returns,
  leaves \<open>maxSpeed\<close> at 8 and ends with a speed of at most \<open>8 * (1 + 2^-50)\<close>.
\<close>

theorem currentSpeed_le_maxSpeed_rounded:
  assumes "0 \<le> maxSpeed h"
  shows "Vector2_length (currentSpeed (Hole_handleInput_r fl dt h)) \<le> maxSpeed h * (1 + 1 / 2 ^ 50) \<and>
         Vector2_length_r fl (currentSpeed (Hole_handleInput_r fl dt h))
           \<le> maxSpeed h * (1 + 1 / 2 ^ 50) \<and>
         (\<exists>h'. Hole_frames_r fl fs Hole_start = Inr h' \<and> maxSpeed h' = 8 \<and>
               Vector2_length (currentSpeed h') \<le> 8 * (1 + 1 / 2 ^ 50) \<and>
               Vector2_length_r fl (currentSpeed h') \<le> 8 * (1 + 1 / 2 ^ 50))"
  using capSpeed_fl_bound [OF assms, of "Hole_integrate_r fl dt h"] Hole_frames_r_bound [of fs]
  by simp

theorem currentSpeed_le_maxSpeed_rounded_witness:
  "0 \<le> maxSpeed Hole_right \<and>
   Vector2_length (currentSpeed (Hole_handleInput_r fl (1 / 60) Hole_right)) \<le> 8 * (1 + 1 / 2 ^ 50) \<and>
   Vector2_length_r fl (currentSpeed (Hole_handleInput_r fl (1 / 60) Hole_right))
     \<le> 8 * (1 + 1 / 2 ^ 50)"
  using currentSpeed_le_maxSpeed_rounded [of Hole_right "1 / 60" "[]"]
  by (simp add: Hole_right_def Hole_start_def)




text \<open>
  Claim C6. \<open>checkSwallow\<close> on an object whose mesh and body are already gone leaves the
  scene and the physics world as they are, and it has no error branch. Once a call has
  swallowed an object, the object is gone from both and a further call, for any state of
  the hole, changes nothing. In a session every entry still in \<open>World.objects\<close> at the
  end of a frame has its mesh in the scene and its body in the physics world, and no two
  entries name the same object: \<open>World.update\<close> never visits a swallowed object again.
\<close>

theorem checkSwallow_removed_noop:
  "(obj_mesh ob \<notin> set (scene e) \<and> obj_body ob \<notin> set (physicsWorld e) \<longrightarrow>
      Hole_checkSwallow h ob e = e) \<and>
   (distinct (scene e0) \<and> distinct (physicsWorld e0) \<and> Hole_checkSwallow h ob e0 \<noteq> e0 \<longrightarrow>
      obj_mesh ob \<notin> set (scene (Hole_checkSwallow h ob e0)) \<and>
      obj_body ob \<notin> set (physicsWorld (Hole_checkSwallow h ob e0)) \<and>
      Hole_checkSwallow h' ob (Hole_checkSwallow h ob e0) = Hole_checkSwallow h ob e0) \<and>
   (\<exists>w. session ps fs = Inr w \<and>
        distinct (map obj_id (objects w)) \<and>
        obj_mesh ` set (objects w) \<subseteq> set (scene (env w)) \<and>
        obj_body ` set (objects w) \<subseteq> set (physicsWorld (env w)))"
proof (intro conjI impI)
  assume "obj_mesh ob \<notin> set (scene e) \<and> obj_body ob \<notin> set (physicsWorld e)"
  then show "Hole_checkSwallow h ob e = e"
    using Hole_checkSwallow_cases [of h ob e]
    by (auto simp: Scene_remove_def CWorld_removeBody_def remove1_idem)
next
  assume a: "distinct (scene e0) \<and> distinct (physicsWorld e0) \<and> Hole_checkSwallow h ob e0 \<noteq> e0"
  let ?e = "Hole_checkSwallow h ob e0"
  from a have eq: "?e = Scene_remove (obj_mesh ob) (CWorld_removeBody (obj_body ob) e0)"
    using Hole_checkSwallow_cases [of h ob e0] by blast
  with a show m: "obj_mesh ob \<notin> set (scene ?e)" by simp
  from eq a show b: "obj_body ob \<notin> set (physicsWorld ?e)" by simp
  from m b show "Hole_checkSwallow h' ob ?e = ?e"
    using Hole_checkSwallow_cases [of h' ob ?e]
    by (auto simp: Scene_remove_def CWorld_removeBody_def remove1_idem)
next
  obtain w where w: "session ps fs = Inr w" "World_ok w" using session_ok by blast
  have sub: "obj_id ` set (objects w) \<subseteq> ObjMesh -` set (scene (env w))"
    and eq: "ObjMesh -` set (scene (env w)) = ObjBody -` set (physicsWorld (env w))"
    using w(2) unfolding World_ok_def Env_ok_def by blast+
  from sub have "obj_mesh ` set (objects w) \<subseteq> set (scene (env w))"
    by auto
  moreover from sub eq have "obj_body ` set (objects w) \<subseteq> set (physicsWorld (env w))"
    by blast
  ultimately show "\<exists>w. session ps fs = Inr w \<and>
        distinct (map obj_id (objects w)) \<and>
        obj_mesh ` set (objects w) \<subseteq> set (scene (env w)) \<and>
        obj_body ` set (objects w) \<subseteq> set (physicsWorld (env w))"
    using w by (auto simp: World_ok_def)
qed

theorem checkSwallow_removed_noop_witness:
  "Hole_checkSwallow Hole_start (Obj_at 0 (- 6) 0) Env_start = Env_start \<and>
   Hole_checkSwallow Hole_start (Obj_at 0 (- 6) 0) Env_one = Env_start \<and>
   Hole_checkSwallow (Hole_start\<lparr>radius := 3\<rparr>) (Obj_at 0 (- 6) 0)
     (Hole_checkSwallow Hole_start (Obj_at 0 (- 6) 0) Env_one) = Env_start"
proof -
  have sw: "Hole_checkSwallow Hole_start (Obj_at 0 (- 6) 0) Env_one = Env_start"
    by (simp add: Hole_checkSwallow_eq Obj_at_def Hole_start_def Env_one_def Env_start_def
        Scene_remove_def CWorld_removeBody_def)
  have ne: "Env_start \<noteq> Env_one"
  proof
    assume "Env_start = Env_one"
    then have "scene Env_start = scene Env_one" by simp
    then show False by (simp add: Env_one_def)
  qed
  have 1: "obj_mesh (Obj_at 0 (- 6) 0) \<notin> set (scene Env_start) \<and>
           obj_body (Obj_at 0 (- 6) 0) \<notin> set (physicsWorld Env_start)"
    by (simp add: Obj_at_def Env_start_def)
  have 2: "distinct (scene Env_one) \<and> distinct (physicsWorld Env_one) \<and>
           Hole_checkSwallow Hole_start (Obj_at 0 (- 6) 0) Env_one \<noteq> Env_one"
    using ne by (simp add: sw) (simp add: Env_one_def Env_start_def)
  show ?thesis
    using checkSwallow_removed_noop [of "Obj_at 0 (- 6) 0" Env_start Hole_start Env_one
        "Hole_start\<lparr>radius := 3\<rparr>"] 1 2 sw
    by simp
qed

text \<open>
  Claim C7. At the end of every frame of every session the render order of the mask
  is \<open>-1\<close>, that of the ground is 0 and that of the interior is 1, so the mask comes
  strictly before the ground and the ground strictly before the interior. No camera
  takes part in these values.
\<close>

theorem renderOrder_mask_ground_interior:
  "\<exists>w. session ps fs = Inr w \<and>
       renderOrder (env w) HoleMask = - 1 \<and> renderOrder (env w) Ground = 0 \<and>
       renderOrder (env w) HoleInterior = 1 \<and>
       renderOrder (env w) HoleMask < renderOrder (env w) Ground \<and>
       renderOrder (env w) Ground < renderOrder (env w) HoleInterior"
proof -
  obtain w where "session ps fs = Inr w" "World_ok w" using session_ok by blast
  then show ?thesis by (auto simp: World_ok_def Env_ok_def)
qed

text \<open>
  Claim C8. For two consecutive frames of a session, the one after the frames \<open>fs\<close>
  and the one after a further frame \<open>f\<close>, both frames complete and the radius of the hole
  after the second is at least the radius after the first.
\<close>

theorem radius_non_decreasing:
  "\<exists>w w'. session ps fs = Inr w \<and> session ps (fs @ [f]) = Inr w' \<and>
          radius (hole w) \<le> radius (hole w')"
proof -
  obtain w where w: "session ps fs = Inr w" "World_ok w" using session_ok by blast
  obtain w' where w': "World_frame f w = Inr w'" using World_ok_frame [OF w(2)] by blast
  have "session ps (fs @ [f]) = Inr w'" using session_snoc [OF w(1)] w' by simp
  moreover have "radius (hole w') = radius (hole w)" using w' by (rule World_frame_radius)
  ultimately show ?thesis using w(1) by auto
qed

text \<open>
  Claim C9. On every animation frame the time step that \<open>Game.animate\<close> forwards to
  \<open>World.update\<close> is \<open>Game_deltaTime\<close>, and it is at most 0.1 seconds whatever the
  two time stamps are.
\<close>

theorem Game_animate_deltaTime_capped:
  "Game_deltaTime currentTime (lastTime g) \<le> 0.1 \<and>
   Game_animate eng currentTime g =
     (case World_update eng (Game_deltaTime currentTime (lastTime g)) (world g) of
        Inl err \<Rightarrow> Inl err
      | Inr w \<Rightarrow> Inr \<lparr>lastTime = currentTime, world = w\<rparr>)"
  by (simp add: Game_deltaTime_def Game_animate_def)

text \<open>
  Claim C10. After the constructor and any sequence of \<open>update\<close> calls, \<open>checkSwallow\<close>
  calls and key events, every call returns and the radius of the hole is its initial
  value 1.5, and so are the radii of the mask disk and of the interior cylinder. At the
  end of every frame of every session the same holds, and the half-width of the opening
  between the inner edges of the ring is 1.5.
\<close>

theorem radius_constant:
  "(\<exists>h e'. (case Hole_new e of Inl err \<Rightarrow> Inl err | Inr s \<Rightarrow> Hole_calls cs s) = Inr (h, e') \<and>
           radius h = 1.5 \<and> holeMask_radius h = 1.5 \<and> holeInterior_radius h = 1.5) \<and>
   (\<exists>w. session ps fs = Inr w \<and>
       radius (hole w) = 1.5 \<and> holeMask_radius (hole w) = 1.5 \<and>
       holeInterior_radius (hole w) = 1.5 \<and>
       (let g = groundBodies (hole w); p = mesh_position (hole w)
        in v3x (gb_position (g ! 0)) - v3x (gb_halfExtents (g ! 0)) = v3x p + 1.5 \<and>
           v3x (gb_position (g ! 1)) + v3x (gb_halfExtents (g ! 1)) = v3x p - 1.5 \<and>
           v3z (gb_position (g ! 2)) + v3z (gb_halfExtents (g ! 2)) = v3z p - 1.5 \<and>
           v3z (gb_position (g ! 3)) - v3z (gb_halfExtents (g ! 3)) = v3z p + 1.5))"
proof (rule conjI)
  show "\<exists>h e'. (case Hole_new e of Inl err \<Rightarrow> Inl err | Inr s \<Rightarrow> Hole_calls cs s) = Inr (h, e') \<and>
           radius h = 1.5 \<and> holeMask_radius h = 1.5 \<and> holeInterior_radius h = 1.5"
    by (rule calls_radius)
next
  obtain w where w: "session ps fs = Inr w" "World_ok w" using session_ok by blast
  let ?h = "hole w"
  have ok: "Hole_ok ?h" using w(2) by (simp add: World_ok_def)
  then have len: "length (groundBodies ?h) = 4" by (rule Hole_ok_length)
  then obtain a b c d where g: "groundBodies ?h = [a, b, c, d]" by (rule length4E)
  have he: "map gb_halfExtents (groundBodies ?h) = replicate 4 \<lparr>v3x = 50, v3y = 1 / 2, v3z = 50\<rparr>"
    and r: "ring ?h = groundBodies ?h" and rad: "radius ?h = 1.5"
    using ok by (simp_all add: Hole_ok_def)
  from r g have "[a, b, c, d] = ring ?h" by simp
  then have pos: "gb_position a = \<lparr>v3x = v3x (mesh_position ?h) + 1.5 + 50, v3y = - 1 / 2, v3z = v3z (mesh_position ?h)\<rparr>"
    "gb_position b = \<lparr>v3x = v3x (mesh_position ?h) - 1.5 - 50, v3y = - 1 / 2, v3z = v3z (mesh_position ?h)\<rparr>"
    "gb_position c = \<lparr>v3x = v3x (mesh_position ?h), v3y = - 1 / 2, v3z = v3z (mesh_position ?h) - 1.5 - 50\<rparr>"
    "gb_position d = \<lparr>v3x = v3x (mesh_position ?h), v3y = - 1 / 2, v3z = v3z (mesh_position ?h) + 1.5 + 50\<rparr>"
    using rad by (simp_all add: ring_def Let_def)
  from he g have hes: "gb_halfExtents a = \<lparr>v3x = 50, v3y = 1 / 2, v3z = 50\<rparr>"
    "gb_halfExtents b = \<lparr>v3x = 50, v3y = 1 / 2, v3z = 50\<rparr>"
    "gb_halfExtents c = \<lparr>v3x = 50, v3y = 1 / 2, v3z = 50\<rparr>"
    "gb_halfExtents d = \<lparr>v3x = 50, v3y = 1 / 2, v3z = 50\<rparr>"
    by (simp_all add: numeral_eq_Suc)
  show "\<exists>w. session ps fs = Inr w \<and>
       radius (hole w) = 1.5 \<and> holeMask_radius (hole w) = 1.5 \<and>
       holeInterior_radius (hole w) = 1.5 \<and>
       (let g = groundBodies (hole w); p = mesh_position (hole w)
        in v3x (gb_position (g ! 0)) - v3x (gb_halfExtents (g ! 0)) = v3x p + 1.5 \<and>
           v3x (gb_position (g ! 1)) + v3x (gb_halfExtents (g ! 1)) = v3x p - 1.5 \<and>
           v3z (gb_position (g ! 2)) + v3z (gb_halfExtents (g ! 2)) = v3z p - 1.5 \<and>
           v3z (gb_position (g ! 3)) - v3z (gb_halfExtents (g ! 3)) = v3z p + 1.5)"
    using w(1) ok g pos hes by (simp add: Hole_ok_def Let_def)
qed

end
